theory Spec2Isabelle
  imports Complex_Main
begin

section \<open>Numbers, text and dates\<close>

text \<open>
  Monetary amounts are Python \<open>Decimal\<close> values; consumption figures, percentages and
  scores are Python floats. A finite value of either kind is a rational number here; the
  float values \<open>inf\<close> and \<open>nan\<close> have no counterpart. The operations of the source whose
  result depends on binary floating point are parameters of the functions that use them:
  \<^item> \<open>float_pct a b\<close> is \<open>float(abs(a - b) / b * 100)\<close>, the decimal quotient converted to a
    float;
  \<^item> \<open>float_div m n\<close> is the float division \<open>m / n\<close> of two counts;
  \<^item> \<open>round2 x\<close> is \<open>round(x, 2)\<close> on a float;
  \<^item> \<open>to_float s\<close> is \<open>float(s)\<close> on the text of a field, \<open>None\<close> for its \<open>ValueError\<close>.
  Every general statement below holds for all such operations. The instances \<open>exact_pct\<close>,
  \<open>exact_div\<close>, \<open>py_round2\<close> and \<open>float_of_decimal\<close> compute on exact rationals and serve in the
  evaluations at concrete inputs. Strings are byte strings and stand for ASCII text.
\<close>

definition quantize_half_up :: "rat \<Rightarrow> rat" where
  \<comment> \<open>the value of \<open>x.quantize(Decimal('0.01'), rounding=ROUND_HALF_UP)\<close>: ties go away from
      zero\<close>
  "quantize_half_up x =
     (if 0 \<le> x then of_int \<lfloor>x * 100 + 1 / 2\<rfloor> / 100
      else - (of_int \<lfloor>- x * 100 + 1 / 2\<rfloor> / 100))"

definition exact_pct :: "rat \<Rightarrow> rat \<Rightarrow> rat" where
  "exact_pct a b = \<bar>a - b\<bar> / b * 100"

definition exact_div :: "nat \<Rightarrow> nat \<Rightarrow> rat" where
  "exact_div m n = of_nat m / of_nat n"

definition py_round2 :: "rat \<Rightarrow> rat" where
  \<comment> \<open>to the nearest hundredth, an exact tie to the even one; \<open>round(x, 2)\<close> decides a tie
      on the binary value of the float instead\<close>
  "py_round2 x =
     (let y = x * 100; f = \<lfloor>y\<rfloor>; d = y - of_int f
      in of_int (if d < 1 / 2 then f else if 1 / 2 < d then f + 1
                 else if even f then f else f + 1) / 100)"

type_synonym date = "int \<times> int \<times> int"
  \<comment> \<open>a \<open>datetime.date\<close>: year, month, day\<close>

section \<open>Line items and reconciliation records\<close>

datatype DiscrepancyStatus = MATCH | MINOR | SIGNIFICANT | MISSING_INVOICED | MISSING_CALCULATED

text \<open>
  A line item is a dictionary; a key that may be absent is an optional field, and the
  readers below supply the defaults that the source passes to \<open>dict.get\<close>.
\<close>

record line_item =
  li_description :: "string option"
  li_charge_type :: "string option"
  li_quantity :: "rat option"
  li_unit :: "string option"
  li_rate :: "rat option"
  li_amount :: "rat option"
  li_tariff_code :: "string option"
  li_period_start :: "date option"
  li_period_end :: "date option"

definition get_description :: "line_item \<Rightarrow> string" where
  "get_description item = (case li_description item of None \<Rightarrow> [] | Some d \<Rightarrow> d)"

definition get_charge_type :: "line_item \<Rightarrow> string" where
  "get_charge_type item = (case li_charge_type item of None \<Rightarrow> ''other'' | Some c \<Rightarrow> c)"

definition get_amount :: "line_item \<Rightarrow> rat" where
  "get_amount item = (case li_amount item of None \<Rightarrow> 0 | Some a \<Rightarrow> a)"

text \<open>
  The note of a record is text formatted from a direction, the absolute difference and the
  percentage; the model keeps the three parts instead of the formatted text.
\<close>

datatype rec_note = Discrepancy_note string rat rat | Fixed_note string

record line_reconciliation =
  r_description :: string
  r_charge_type :: string
  r_invoiced_quantity :: "rat option"
  r_invoiced_rate :: "rat option"
  r_invoiced_amount :: rat
  r_calculated_quantity :: "rat option"
  r_calculated_rate :: "rat option"
  r_calculated_amount :: rat
  r_amount_difference :: rat
  r_percentage_difference :: "rat option"
  r_status :: DiscrepancyStatus
  r_notes :: "rec_note option"

section \<open>The reconciliation matcher\<close>

subsection \<open>Lookup by charge type\<close>

fun calc_by_type_append :: "string \<Rightarrow> line_item \<Rightarrow> (string \<times> line_item list) list
    \<Rightarrow> (string \<times> line_item list) list" where
  "calc_by_type_append k item [] = [(k, [item])]"
| "calc_by_type_append k item ((k', items) # d) =
     (if k = k' then (k', items @ [item]) # d else (k', items) # calc_by_type_append k item d)"

definition calc_by_type_of :: "line_item list \<Rightarrow> (string \<times> line_item list) list" where
  \<comment> \<open>the dictionary \<open>calc_by_type\<close>, in insertion order of its keys\<close>
  "calc_by_type_of calculated_items =
     foldl (\<lambda>d item. calc_by_type_append (get_charge_type item) item d) [] calculated_items"

definition calc_by_type_get :: "(string \<times> line_item list) list \<Rightarrow> string \<Rightarrow> line_item list" where
  "calc_by_type_get d k = (case map_of d k of None \<Rightarrow> [] | Some items \<Rightarrow> items)"

subsection \<open>Classification of a pair\<close>

definition pct_diff_of :: "(rat \<Rightarrow> rat \<Rightarrow> rat) \<Rightarrow> rat \<Rightarrow> rat \<Rightarrow> rat" where
  "pct_diff_of float_pct inv_amount calc_amount =
     (if 0 < calc_amount then float_pct inv_amount calc_amount
      else if inv_amount - calc_amount \<noteq> 0 then 100 else 0)"

definition status_of :: "rat \<Rightarrow> rat \<Rightarrow> DiscrepancyStatus" where
  "status_of pct_diff tolerance_percent =
     (if pct_diff \<le> tolerance_percent then MATCH
      else if pct_diff \<le> 5 then MINOR
      else SIGNIFICANT)"

definition get_discrepancy_note :: "DiscrepancyStatus \<Rightarrow> rat \<Rightarrow> rat \<Rightarrow> rec_note option" where
  "get_discrepancy_note status diff pct_diff =
     (if status = MATCH then None
      else Some (Discrepancy_note
        (if 0 < diff then ''Invoiced amount is higher'' else ''Invoiced amount is lower'')
        \<bar>diff\<bar> pct_diff))"

definition matched_record :: "(rat \<Rightarrow> rat \<Rightarrow> rat) \<Rightarrow> (rat \<Rightarrow> rat) \<Rightarrow> line_item \<Rightarrow> line_item
    \<Rightarrow> rat \<Rightarrow> line_reconciliation" where
  "matched_record float_pct round2 inv_item calc_item tolerance_percent =
     (let inv_amount = get_amount inv_item;
          calc_amount = get_amount calc_item;
          diff = inv_amount - calc_amount;
          pct_diff = pct_diff_of float_pct inv_amount calc_amount;
          status = status_of pct_diff tolerance_percent
      in \<lparr> r_description = get_description inv_item,
           r_charge_type = get_charge_type inv_item,
           r_invoiced_quantity = li_quantity inv_item,
           r_invoiced_rate = li_rate inv_item,
           r_invoiced_amount = inv_amount,
           r_calculated_quantity = li_quantity calc_item,
           r_calculated_rate = li_rate calc_item,
           r_calculated_amount = calc_amount,
           r_amount_difference = diff,
           r_percentage_difference = Some (round2 pct_diff),
           r_status = status,
           r_notes = get_discrepancy_note status diff pct_diff \<rparr>)"

definition missing_calculated_record :: "line_item \<Rightarrow> line_reconciliation" where
  "missing_calculated_record inv_item =
     \<lparr> r_description = get_description inv_item,
       r_charge_type = get_charge_type inv_item,
       r_invoiced_quantity = li_quantity inv_item,
       r_invoiced_rate = li_rate inv_item,
       r_invoiced_amount = get_amount inv_item,
       r_calculated_quantity = None,
       r_calculated_rate = None,
       r_calculated_amount = 0,
       r_amount_difference = get_amount inv_item,
       r_percentage_difference = None,
       r_status = MISSING_CALCULATED,
       r_notes = Some (Fixed_note ''Item on invoice but not in calculated values'') \<rparr>"

definition missing_invoiced_record :: "string \<Rightarrow> line_item \<Rightarrow> line_reconciliation" where
  "missing_invoiced_record charge_type calc_item =
     \<lparr> r_description = get_description calc_item,
       r_charge_type = charge_type,
       r_invoiced_quantity = None,
       r_invoiced_rate = None,
       r_invoiced_amount = 0,
       r_calculated_quantity = li_quantity calc_item,
       r_calculated_rate = li_rate calc_item,
       r_calculated_amount = get_amount calc_item,
       r_amount_difference = - get_amount calc_item,
       r_percentage_difference = None,
       r_status = MISSING_INVOICED,
       r_notes = Some (Fixed_note ''Calculated item not found on invoice'') \<rparr>"

subsection \<open>The two loops\<close>

text \<open>
  The search for the best calculated item of one invoiced item: the inner \<open>for j, calc_item\<close>
  loop, with \<open>(best_match, best_diff)\<close> as one optional triple. The index \<open>j\<close> is the position
  inside the bucket of the charge type, and \<open>calculated_matched\<close> is one set of such positions
  for all buckets, as in the source.
\<close>

fun find_best :: "rat \<Rightarrow> nat set \<Rightarrow> (nat \<times> line_item) list
    \<Rightarrow> (nat \<times> line_item \<times> rat) option \<Rightarrow> (nat \<times> line_item \<times> rat) option" where
  "find_best inv_amount calculated_matched [] best = best"
| "find_best inv_amount calculated_matched ((j, calc_item) # rest) best =
     (if j \<in> calculated_matched then find_best inv_amount calculated_matched rest best
      else
        (let diff = inv_amount - get_amount calc_item
         in case best of
              None \<Rightarrow> find_best inv_amount calculated_matched rest (Some (j, calc_item, diff))
            | Some (bj, bitem, best_diff) \<Rightarrow>
                if \<bar>diff\<bar> < \<bar>best_diff\<bar>
                then find_best inv_amount calculated_matched rest (Some (j, calc_item, diff))
                else find_best inv_amount calculated_matched rest best))"

record match_state =
  reconciled :: "line_reconciliation list"
  invoiced_matched :: "nat set"
  calculated_matched :: "nat set"

definition match_step :: "(rat \<Rightarrow> rat \<Rightarrow> rat) \<Rightarrow> (rat \<Rightarrow> rat)
    \<Rightarrow> (string \<times> line_item list) list \<Rightarrow> rat \<Rightarrow> match_state
    \<Rightarrow> nat \<times> line_item \<Rightarrow> match_state" where
  "match_step float_pct round2 calc_by_type tolerance_percent st p =
     (case p of (i, inv_item) \<Rightarrow>
        (case find_best (get_amount inv_item) (calculated_matched st)
                (enumerate 0 (calc_by_type_get calc_by_type (get_charge_type inv_item))) None of
           Some (j, calc_item, d) \<Rightarrow>
             \<lparr> reconciled = reconciled st
                 @ [matched_record float_pct round2 inv_item calc_item tolerance_percent],
               invoiced_matched = insert i (invoiced_matched st),
               calculated_matched = insert j (calculated_matched st) \<rparr>
         | None \<Rightarrow>
             st \<lparr> reconciled := reconciled st @ [missing_calculated_record inv_item] \<rparr>))"

definition unmatched_calculated :: "(string \<times> line_item list) list \<Rightarrow> nat set
    \<Rightarrow> line_reconciliation list" where
  "unmatched_calculated calc_by_type matched =
     concat (map (\<lambda>(charge_type, items).
        map (\<lambda>(j, calc_item). missing_invoiced_record charge_type calc_item)
            (filter (\<lambda>(j, calc_item). j \<notin> matched) (enumerate 0 items))) calc_by_type)"

definition reconcile_line_items_on :: "(rat \<Rightarrow> rat \<Rightarrow> rat) \<Rightarrow> (rat \<Rightarrow> rat)
    \<Rightarrow> line_item list \<Rightarrow> line_item list \<Rightarrow> rat \<Rightarrow> line_reconciliation list" where
  \<comment> \<open>\<open>_reconcile_line_items\<close> on the floating-point operations \<open>float_pct\<close> and \<open>round2\<close>\<close>
  "reconcile_line_items_on float_pct round2 invoiced_items calculated_items tolerance_percent =
     (let calc_by_type = calc_by_type_of calculated_items;
          st = foldl (match_step float_pct round2 calc_by_type tolerance_percent)
                 \<lparr> reconciled = [], invoiced_matched = {}, calculated_matched = {} \<rparr>
                 (enumerate 0 invoiced_items)
      in reconciled st @ unmatched_calculated calc_by_type (calculated_matched st))"

definition reconcile_line_items :: "line_item list \<Rightarrow> line_item list \<Rightarrow> rat
    \<Rightarrow> line_reconciliation list" where
  \<comment> \<open>\<open>_reconcile_line_items\<close> on exact arithmetic, for evaluation\<close>
  "reconcile_line_items = reconcile_line_items_on exact_pct py_round2"

section \<open>Text and dates of the interval store\<close>

datatype error = ValueError string | ZeroDivisionError | TypeError | InvalidOperation
  | AttributeError

definition is_space :: "char \<Rightarrow> bool" where
  \<comment> \<open>the ASCII characters that \<open>str.strip()\<close> removes\<close>
  "is_space c = (c \<in> set [CHR 0x09, CHR 0x0A, CHR 0x0B, CHR 0x0C, CHR 0x0D,
                           CHR 0x1C, CHR 0x1D, CHR 0x1E, CHR 0x1F, CHR 0x20])"

definition py_strip :: "string \<Rightarrow> string" where
  "py_strip s = rev (dropWhile is_space (rev (dropWhile is_space s)))"

fun py_split :: "char \<Rightarrow> string \<Rightarrow> string list" where
  \<comment> \<open>\<open>s.split(sep)\<close> for a one-character separator: never empty, \<open>''.split(sep) == ['']\<close>\<close>
  "py_split sep [] = [[]]"
| "py_split sep (c # cs) =
     (if c = sep then [] # py_split sep cs
      else (case py_split sep cs of [] \<Rightarrow> [[c]] | w # ws \<Rightarrow> (c # w) # ws))"

definition is_digit :: "char \<Rightarrow> bool" where
  "is_digit c = (48 \<le> (of_char c :: nat) \<and> (of_char c :: nat) \<le> 57)"

definition digit_val :: "char \<Rightarrow> nat" where
  "digit_val c = of_char c - 48"

definition py_isdigit :: "string \<Rightarrow> bool" where
  "py_isdigit s = (s \<noteq> [] \<and> list_all is_digit s)"

definition py_int :: "string \<Rightarrow> nat" where
  \<comment> \<open>the number that a string of digits writes\<close>
  "py_int s = foldl (\<lambda>n c. 10 * n + digit_val c) 0 s"

definition int_of_digits :: "string \<Rightarrow> error + nat" where
  \<comment> \<open>\<open>int(s)\<close> on a string of ASCII digits: a text of more than 4300 digits is refused\<close>
  "int_of_digits s =
     (if 4300 < length s
      then Inl (ValueError ''Exceeds the limit (4300 digits) for integer string conversion'')
      else Inr (py_int s))"


definition py_lower :: "string \<Rightarrow> string" where
  "py_lower s = map (\<lambda>c. if 65 \<le> (of_char c :: nat) \<and> (of_char c :: nat) \<le> 90
                           then char_of (of_char c + 32 :: nat) else c) s"

subsection \<open>Calendar\<close>

definition is_leap :: "int \<Rightarrow> bool" where
  "is_leap y = (y mod 4 = 0 \<and> (y mod 100 \<noteq> 0 \<or> y mod 400 = 0))"

definition days_in_month :: "int \<Rightarrow> int \<Rightarrow> int" where
  "days_in_month y m =
     (if m = 2 then (if is_leap y then 29 else 28)
      else if m = 4 \<or> m = 6 \<or> m = 9 \<or> m = 11 then 30 else 31)"

definition valid_date :: "date \<Rightarrow> bool" where
  \<comment> \<open>the dates that the constructor of \<open>datetime.date\<close> accepts\<close>
  "valid_date dt = (case dt of (y, m, d) \<Rightarrow>
     1 \<le> y \<and> y \<le> 9999 \<and> 1 \<le> m \<and> m \<le> 12 \<and> 1 \<le> d \<and> d \<le> days_in_month y m)"

definition toordinal :: "date \<Rightarrow> int" where
  "toordinal dt = (case dt of (y, m, d) \<Rightarrow>
     (y - 1) * 365 + (y - 1) div 4 - (y - 1) div 100 + (y - 1) div 400
       + sum_list (map (days_in_month y) [1..m - 1]) + d)"

definition weekday :: "date \<Rightarrow> int" where
  \<comment> \<open>Monday is 0\<close>
  "weekday dt = (toordinal dt + 6) mod 7"

definition date_less :: "date \<Rightarrow> date \<Rightarrow> bool" where
  "date_less a b = (case a of (y1, m1, d1) \<Rightarrow> case b of (y2, m2, d2) \<Rightarrow>
     y1 < y2 \<or> (y1 = y2 \<and> (m1 < m2 \<or> (m1 = m2 \<and> d1 < d2))))"

definition digit_char :: "int \<Rightarrow> char" where
  "digit_char n = char_of (48 + n mod 10)"

definition isoformat :: "date \<Rightarrow> string" where
  "isoformat dt = (case dt of (y, m, d) \<Rightarrow>
     [digit_char (y div 1000), digit_char (y div 100), digit_char (y div 10), digit_char y]
     @ ''-'' @ [digit_char (m div 10), digit_char m]
     @ ''-'' @ [digit_char (d div 10), digit_char d])"

text \<open>
  \<open>datetime.strptime\<close> compiles the format to a regular expression, takes the first match in
  the order of its alternatives, rejects text left over after the match and then builds the
  date. Year: four digits. Month: \<open>1[0-2]|0[1-9]|[1-9]\<close>. Day:
  \<open>3[01]|[12]\d|0[1-9]|[1-9]| [1-9]\<close>. The separator is empty for \<open>%Y%m%d\<close> and a hyphen
  for \<open>%Y-%m-%d\<close>. \<open>None\<close> stands for the \<open>ValueError\<close>.
\<close>

definition in_range :: "char \<Rightarrow> nat \<Rightarrow> nat \<Rightarrow> bool" where
  "in_range c lo hi = (is_digit c \<and> lo \<le> digit_val c \<and> digit_val c \<le> hi)"

definition month_candidates :: "string \<Rightarrow> (int \<times> string) list" where
  "month_candidates s =
     (case s of
        [] \<Rightarrow> []
      | [a] \<Rightarrow> (if in_range a 1 9 then [(int (digit_val a), [])] else [])
      | a # b # rest \<Rightarrow>
          (if a = CHR ''1'' \<and> in_range b 0 2 then [(10 + int (digit_val b), rest)] else [])
          @ (if a = CHR ''0'' \<and> in_range b 1 9 then [(int (digit_val b), rest)] else [])
          @ (if in_range a 1 9 then [(int (digit_val a), b # rest)] else []))"

definition day_candidates :: "string \<Rightarrow> (int \<times> string) list" where
  "day_candidates s =
     (case s of
        [] \<Rightarrow> []
      | [a] \<Rightarrow> (if in_range a 1 9 then [(int (digit_val a), [])] else [])
      | a # b # rest \<Rightarrow>
          (if a = CHR ''3'' \<and> in_range b 0 1 then [(30 + int (digit_val b), rest)] else [])
          @ (if in_range a 1 2 \<and> is_digit b then [(10 * int (digit_val a) + int (digit_val b), rest)] else [])
          @ (if a = CHR ''0'' \<and> in_range b 1 9 then [(int (digit_val b), rest)] else [])
          @ (if in_range a 1 9 then [(int (digit_val a), b # rest)] else [])
          @ (if a = CHR '' '' \<and> in_range b 1 9 then [(int (digit_val b), rest)] else []))"

fun strip_prefix :: "string \<Rightarrow> string \<Rightarrow> string option" where
  "strip_prefix [] s = Some s"
| "strip_prefix (p # ps) [] = None"
| "strip_prefix (p # ps) (c # cs) = (if p = c then strip_prefix ps cs else None)"

definition strptime :: "string \<Rightarrow> string \<Rightarrow> date option" where
  "strptime sep s =
     (if length s < 4 \<or> \<not> list_all is_digit (take 4 s) then None
      else
        (case strip_prefix sep (drop 4 s) of
           None \<Rightarrow> None
         | Some s1 \<Rightarrow>
             (case concat (map (\<lambda>(m, r).
                      case strip_prefix sep r of
                        None \<Rightarrow> []
                      | Some r' \<Rightarrow> map (\<lambda>(d, r''). (m, d, r'')) (day_candidates r'))
                    (month_candidates s1)) of
                [] \<Rightarrow> None
              | (m, d, r) # other \<Rightarrow>
                  if r \<noteq> [] then None
                  else if valid_date (int (py_int (take 4 s)), m, d)
                  then Some (int (py_int (take 4 s)), m, d) else None)))"

section \<open>The interval store\<close>

record meter =
  m_nmi :: string
  m_nmi_configuration :: string
  m_register_id :: string
  m_nmi_suffix :: string
  m_meter_serial :: "string option"
  m_unit_of_measure :: string
  m_interval_length :: nat
  m_start_date :: "date option"
  m_end_date :: "date option"
  m_total_consumption :: rat
  m_total_generation :: "rat option"
  m_interval_count :: "nat option"

text \<open>
  A reading keeps its date; the source keeps the ISO text of the date and parses it back
  when it classifies the reading.
\<close>

record interval =
  i_date :: date
  i_interval :: nat
  i_value :: rat
  i_unit :: string

definition field_or :: "string list \<Rightarrow> nat \<Rightarrow> string \<Rightarrow> string" where
  \<comment> \<open>\<open>fields[i] if len(fields) > i else default\<close>\<close>
  "field_or flds i dflt = (if i < length flds then flds ! i else dflt)"

definition parse_200_record :: "string list \<Rightarrow> error + meter" where
  \<comment> \<open>the only part that can fail is \<open>int(fields[8])\<close>\<close>
  "parse_200_record flds =
     (case (if 8 < length flds \<and> py_isdigit (flds ! 8) then int_of_digits (flds ! 8)
            else Inr 30) of
        Inl e \<Rightarrow> Inl e
      | Inr interval_length \<Rightarrow>
          Inr \<lparr> m_nmi = field_or flds 1 [],
                m_nmi_configuration = field_or flds 2 [],
                m_register_id = field_or flds 3 [],
                m_nmi_suffix = field_or flds 4 [],
                m_meter_serial = (if 6 < length flds then Some (flds ! 6) else None),
                m_unit_of_measure = field_or flds 7 ''kWh'',
                m_interval_length = interval_length,
                m_start_date = None,
                m_end_date = None,
                m_total_consumption = 0,
                m_total_generation = None,
                m_interval_count = None \<rparr>)"

text \<open>
  The parser of one numeric field, Python's \<open>float\<close>, is a parameter \<open>to_float\<close> of the
  interval store: \<open>None\<close> is its \<open>ValueError\<close>. The loop over the positions of a day block
  appends a reading and adds its value to the total of the meter.
\<close>

fun read_intervals :: "(string \<Rightarrow> rat option) \<Rightarrow> string list \<Rightarrow> date \<Rightarrow> nat list
    \<Rightarrow> interval list \<times> meter \<Rightarrow> interval list \<times> meter" where
  "read_intervals to_float flds interval_date [] acc = acc"
| "read_intervals to_float flds interval_date (i # rest) (intervals, meter) =
     (if 2 + i < length flds then
        (case to_float (flds ! (2 + i)) of
           Some v \<Rightarrow>
             read_intervals to_float flds interval_date rest
               (intervals @ [\<lparr> i_date = interval_date, i_interval = i + 1, i_value = v,
                                i_unit = m_unit_of_measure meter \<rparr>],
                meter \<lparr> m_total_consumption := m_total_consumption meter + v \<rparr>)
         | None \<Rightarrow> read_intervals to_float flds interval_date rest (intervals, meter))
      else read_intervals to_float flds interval_date rest (intervals, meter))"

definition update_date_range :: "date \<Rightarrow> meter \<Rightarrow> meter" where
  "update_date_range interval_date meter =
     (let meter1 =
            (if m_start_date meter = None \<or> date_less interval_date (the (m_start_date meter))
             then meter \<lparr> m_start_date := Some interval_date \<rparr> else meter)
      in if m_end_date meter1 = None \<or> date_less (the (m_end_date meter1)) interval_date
         then meter1 \<lparr> m_end_date := Some interval_date \<rparr> else meter1)"

definition parse_300_record :: "(string \<Rightarrow> rat option) \<Rightarrow> string list \<Rightarrow> meter
    \<Rightarrow> error + (interval list \<times> meter)" where
  "parse_300_record to_float flds meter =
     (if m_interval_length meter = 0 then Inl ZeroDivisionError
      else
        (let intervals_per_day = 1440 div m_interval_length meter
         in case strptime [] (field_or flds 1 []) of
              None \<Rightarrow> Inr ([], meter)
            | Some interval_date \<Rightarrow>
                Inr (read_intervals to_float flds interval_date [0..<intervals_per_day]
                       ([], update_date_range interval_date meter))))"

text \<open>
  The meter dictionaries are mutable objects shared between \<open>current_meter\<close> and the list
  \<open>meters\<close>: a reference is an index into the list of the objects created so far.
\<close>

record nem12_run =
  run_objects :: "meter list"
  run_meters :: "nat list"
  run_current_meter :: "nat option"
  run_interval_data :: "string \<Rightarrow> interval list option"

definition intervals_get :: "(string \<Rightarrow> interval list option) \<Rightarrow> string \<Rightarrow> interval list" where
  "intervals_get interval_data nmi = (case interval_data nmi of None \<Rightarrow> [] | Some l \<Rightarrow> l)"

definition finalize_current :: "nem12_run \<Rightarrow> nem12_run" where
  \<comment> \<open>\<open>if current_meter: current_meter['interval_count'] = ...; meters.append(current_meter)\<close>\<close>
  "finalize_current st =
     (case run_current_meter st of
        None \<Rightarrow> st
      | Some a \<Rightarrow>
          st \<lparr> run_objects := (run_objects st)
                  [a := (run_objects st ! a) \<lparr> m_interval_count :=
                     Some (length (intervals_get (run_interval_data st)
                                     (m_nmi (run_objects st ! a)))) \<rparr>],
               run_meters := run_meters st @ [a] \<rparr>)"

definition process_line :: "(string \<Rightarrow> rat option) \<Rightarrow> nem12_run \<Rightarrow> string
    \<Rightarrow> error + nem12_run" where
  "process_line to_float st line =
     (case py_split CHR '','' (py_strip line) of
        [] \<Rightarrow> Inr st
      | record_type # other \<Rightarrow>
          (let flds = record_type # other in
           if record_type = ''100'' then Inr st
           else if record_type = ''200'' then
             (let st1 = finalize_current st
              in case parse_200_record flds of
                   Inl e \<Rightarrow> Inl e
                 | Inr m \<Rightarrow>
                     Inr (st1 \<lparr> run_objects := run_objects st1 @ [m],
                                run_current_meter := Some (length (run_objects st1)),
                                run_interval_data := (run_interval_data st1)(m_nmi m \<mapsto> []) \<rparr>))
           else if record_type = ''300'' then
             (case run_current_meter st of
                None \<Rightarrow> Inr st
              | Some a \<Rightarrow>
                  (case parse_300_record to_float flds (run_objects st ! a) of
                     Inl e \<Rightarrow> Inl e
                   | Inr (intervals, m) \<Rightarrow>
                       Inr (st \<lparr> run_objects := (run_objects st)[a := m],
                                 run_interval_data := (run_interval_data st)
                                   (m_nmi m \<mapsto> intervals_get (run_interval_data st) (m_nmi m)
                                                 @ intervals) \<rparr>)))
           else if record_type = ''400'' then Inr st
           else if record_type = ''900'' then Inr (finalize_current st)
           else Inr st))"

fun process_lines :: "(string \<Rightarrow> rat option) \<Rightarrow> nem12_run \<Rightarrow> string list
    \<Rightarrow> error + nem12_run" where
  "process_lines to_float st [] = Inr st"
| "process_lines to_float st (line # rest) =
     (case process_line to_float st line of
        Inl e \<Rightarrow> Inl e
      | Inr st' \<Rightarrow> process_lines to_float st' rest)"

record file_data =
  fd_meters :: "meter list"
  fd_intervals :: "string \<Rightarrow> interval list option"

definition initial_run :: nem12_run where
  "initial_run = \<lparr> run_objects = [], run_meters = [], run_current_meter = None,
                   run_interval_data = Map.empty \<rparr>"

definition process_nem12 :: "(string \<Rightarrow> rat option) \<Rightarrow> (string \<Rightarrow> file_data option) \<Rightarrow> string
    \<Rightarrow> string \<Rightarrow> error + (meter list \<times> (string \<Rightarrow> file_data option))" where
  \<comment> \<open>returns the meter list and the updated store \<open>_file_data\<close> (without its time stamp)\<close>
  "process_nem12 to_float store file_id content =
     (case process_lines to_float initial_run (py_split CHR 0x0A (py_strip content)) of
        Inl e \<Rightarrow> Inl e
      | Inr st \<Rightarrow>
          (let meters = map (\<lambda>a. run_objects st ! a) (run_meters st)
           in Inr (meters, store(file_id \<mapsto>
                     \<lparr> fd_meters = meters, fd_intervals = run_interval_data st \<rparr>))))"

record consumption_summary =
  s_nmi :: string
  s_period_start :: "date option"
  s_period_end :: "date option"
  s_total_kwh :: rat
  s_peak_kwh :: rat
  s_off_peak_kwh :: rat

definition is_peak :: "nat \<Rightarrow> interval \<Rightarrow> bool" where
  "is_peak interval_length iv =
     (let minutes = (i_interval iv - 1) * interval_length;
          hour = minutes div 60;
          is_weekday = weekday (i_date iv) < 5
      in is_weekday \<and> 7 \<le> hour \<and> hour < 22)"

definition split_consumption :: "nat \<Rightarrow> interval list \<Rightarrow> rat \<times> rat" where
  \<comment> \<open>the loop over the readings: \<open>(peak_kwh, off_peak_kwh)\<close>\<close>
  "split_consumption interval_length intervals =
     foldl (\<lambda>(peak_kwh, off_peak_kwh) iv.
              if is_peak interval_length iv then (peak_kwh + i_value iv, off_peak_kwh)
              else (peak_kwh, off_peak_kwh + i_value iv))
           (0, 0) intervals"

definition summarise :: "file_data \<Rightarrow> meter \<Rightarrow> consumption_summary" where
  "summarise data meter =
     (let intervals = intervals_get (fd_intervals data) (m_nmi meter);
          (peak_kwh, off_peak_kwh) = split_consumption (m_interval_length meter) intervals
      in \<lparr> s_nmi = m_nmi meter,
           s_period_start = m_start_date meter,
           s_period_end = m_end_date meter,
           s_total_kwh = m_total_consumption meter,
           s_peak_kwh = peak_kwh,
           s_off_peak_kwh = off_peak_kwh \<rparr>)"

definition get_consumption_summary :: "(string \<Rightarrow> file_data option) \<Rightarrow> string
    \<Rightarrow> consumption_summary list" where
  "get_consumption_summary store file_id =
     (case store file_id of
        None \<Rightarrow> []
      | Some data \<Rightarrow> map (summarise data) (fd_meters data))"

text \<open>
  An instance of the field parser for evaluation: Python's \<open>float\<close> restricted to plain
  decimal literals (an optional sign, digits, an optional point and digits).
\<close>

definition float_of_decimal :: "string \<Rightarrow> rat option" where
  "float_of_decimal s =
     (let (neg, body) =
            (case s of
               [] \<Rightarrow> (False, [])
             | c # cs \<Rightarrow> if c = CHR ''-'' then (True, cs)
                         else if c = CHR ''+'' then (False, cs) else (False, s));
          ip = takeWhile is_digit body;
          rest = dropWhile is_digit body;
          fp = (case rest of [] \<Rightarrow> Some [] | c # cs \<Rightarrow> if c = CHR ''.'' then Some cs else None)
      in case fp of
           None \<Rightarrow> None
         | Some f \<Rightarrow>
             if \<not> list_all is_digit f \<or> (ip = [] \<and> f = []) then None
             else Some ((if neg then - 1 else 1)
                        * (of_nat (py_int ip) + of_nat (py_int f) / 10 ^ length f)))"

section \<open>The tariff catalogue\<close>

text \<open>
  Tariffs are dictionaries of dynamically typed values. A dictionary is an association list
  in the order of its keys; numbers (\<open>int\<close>, \<open>float\<close>, \<open>Decimal\<close>) are rationals;
  \<open>PClock\<close> is the text of today's date, which the catalogue stamps on its answers.
\<close>

datatype pyval = PNone | PStr string | PNum rat | PList "pyval list"
  | PDict "(string \<times> pyval) list" | PClock

definition dict_get :: "(string \<times> pyval) list \<Rightarrow> string \<Rightarrow> pyval \<Rightarrow> pyval" where
  \<comment> \<open>\<open>d.get(key, default)\<close>\<close>
  "dict_get d k dflt = (case map_of d k of None \<Rightarrow> dflt | Some v \<Rightarrow> v)"

definition truthy :: "pyval \<Rightarrow> bool" where
  "truthy v = (case v of PNone \<Rightarrow> False | PStr t \<Rightarrow> t \<noteq> [] | PNum r \<Rightarrow> r \<noteq> 0
                | PList l \<Rightarrow> l \<noteq> [] | PDict d \<Rightarrow> d \<noteq> [] | PClock \<Rightarrow> True)"

definition to_decimal :: "pyval \<Rightarrow> error + rat" where
  \<comment> \<open>\<open>Decimal(str(v))\<close> on a number; text and containers are not converted\<close>
  "to_decimal v = (case v of PNum r \<Rightarrow> Inr r | _ \<Rightarrow> Inl InvalidOperation)"

datatype NetworkProvider = EVOENERGY | ERGON_ENERGY | ENERGEX | AUSGRID | ESSENTIAL_ENERGY
  | ENDEAVOUR_ENERGY | AUSNET_SERVICES | POWERCOR | JEMENA | CITIPOWER | UNITED_ENERGY
  | TASNETWORKS

definition all_providers :: "NetworkProvider list" where
  \<comment> \<open>\<open>list(NetworkProvider)\<close>, in the order of the declaration\<close>
  "all_providers = [EVOENERGY, ERGON_ENERGY, ENERGEX, AUSGRID, ESSENTIAL_ENERGY,
     ENDEAVOUR_ENERGY, AUSNET_SERVICES, POWERCOR, JEMENA, CITIPOWER, UNITED_ENERGY,
     TASNETWORKS]"

fun provider_value :: "NetworkProvider \<Rightarrow> string" where
  "provider_value EVOENERGY = ''evoenergy''"
| "provider_value ERGON_ENERGY = ''ergon_energy''"
| "provider_value ENERGEX = ''energex''"
| "provider_value AUSGRID = ''ausgrid''"
| "provider_value ESSENTIAL_ENERGY = ''essential_energy''"
| "provider_value ENDEAVOUR_ENERGY = ''endeavour_energy''"
| "provider_value AUSNET_SERVICES = ''ausnet_services''"
| "provider_value POWERCOR = ''powercor''"
| "provider_value JEMENA = ''jemena''"
| "provider_value CITIPOWER = ''citipower''"
| "provider_value UNITED_ENERGY = ''united_energy''"
| "provider_value TASNETWORKS = ''tasnetworks''"

fun sample_tariffs :: "NetworkProvider \<Rightarrow> (string \<times> pyval) list list" where
  "sample_tariffs EVOENERGY =
       [[(''tariff_code'', PStr ''RES-TOU''),
        (''tariff_name'', PStr ''Residential Time of Use''),
        (''network_provider'', PStr ''evoenergy''),
        (''tariff_type'', PStr ''tou''),
        (''effective_from'', PStr ''2024-07-01''),
        (''daily_supply_charge_cents'', PNum (523 / 10)),
        (''time_periods'', PList
          [PDict [(''name'', PStr ''peak''), (''start_time'', PStr ''17:00''), (''end_time'', PStr ''20:00''),
            (''days'', PList [PNum 0, PNum 1, PNum 2, PNum 3, PNum 4]), (''rate_cents_per_kwh'', PNum (49 / 2))],
           PDict [(''name'', PStr ''off_peak''), (''start_time'', PStr ''00:00''), (''end_time'', PStr ''17:00''),
            (''days'', PList [PNum 0, PNum 1, PNum 2, PNum 3, PNum 4, PNum 5, PNum 6]), (''rate_cents_per_kwh'', PNum (89 / 10))],
           PDict [(''name'', PStr ''off_peak''), (''start_time'', PStr ''20:00''), (''end_time'', PStr ''24:00''),
            (''days'', PList [PNum 0, PNum 1, PNum 2, PNum 3, PNum 4, PNum 5, PNum 6]), (''rate_cents_per_kwh'', PNum (89 / 10))]])]]"
| "sample_tariffs ERGON_ENERGY =
       [[(''tariff_code'', PStr ''8400''),
        (''tariff_name'', PStr ''Residential Flat''),
        (''network_provider'', PStr ''ergon_energy''),
        (''tariff_type'', PStr ''flat''),
        (''effective_from'', PStr ''2024-07-01''),
        (''daily_supply_charge_cents'', PNum (205 / 2)),
        (''usage_rate_cents_per_kwh'', PNum (249 / 20))]]"
| "sample_tariffs ENERGEX =
       [[(''tariff_code'', PStr ''8400''),
        (''tariff_name'', PStr ''Residential Flat''),
        (''network_provider'', PStr ''energex''),
        (''tariff_type'', PStr ''flat''),
        (''effective_from'', PStr ''2024-07-01''),
        (''daily_supply_charge_cents'', PNum (279 / 5)),
        (''usage_rate_cents_per_kwh'', PNum (1123 / 100))]]"
| "sample_tariffs AUSGRID =
       [[(''tariff_code'', PStr ''EA010''),
        (''tariff_name'', PStr ''Residential Time of Use''),
        (''network_provider'', PStr ''ausgrid''),
        (''tariff_type'', PStr ''tou''),
        (''effective_from'', PStr ''2024-07-01''),
        (''daily_supply_charge_cents'', PNum (9837 / 100)),
        (''time_periods'', PList
          [PDict [(''name'', PStr ''peak''), (''start_time'', PStr ''14:00''), (''end_time'', PStr ''20:00''),
            (''days'', PList [PNum 0, PNum 1, PNum 2, PNum 3, PNum 4]), (''rate_cents_per_kwh'', PNum (891 / 25))],
           PDict [(''name'', PStr ''shoulder''), (''start_time'', PStr ''07:00''), (''end_time'', PStr ''14:00''),
            (''days'', PList [PNum 0, PNum 1, PNum 2, PNum 3, PNum 4]), (''rate_cents_per_kwh'', PNum (1287 / 100))],
           PDict [(''name'', PStr ''shoulder''), (''start_time'', PStr ''20:00''), (''end_time'', PStr ''22:00''),
            (''days'', PList [PNum 0, PNum 1, PNum 2, PNum 3, PNum 4]), (''rate_cents_per_kwh'', PNum (1287 / 100))],
           PDict [(''name'', PStr ''off_peak''), (''start_time'', PStr ''22:00''), (''end_time'', PStr ''07:00''),
            (''days'', PList [PNum 0, PNum 1, PNum 2, PNum 3, PNum 4, PNum 5, PNum 6]), (''rate_cents_per_kwh'', PNum (407 / 50))],
           PDict [(''name'', PStr ''off_peak''), (''start_time'', PStr ''00:00''), (''end_time'', PStr ''24:00''),
            (''days'', PList [PNum 5, PNum 6]), (''rate_cents_per_kwh'', PNum (407 / 50))]])],
       [(''tariff_code'', PStr ''EA025''),
        (''tariff_name'', PStr ''Residential Flat Rate''),
        (''network_provider'', PStr ''ausgrid''),
        (''tariff_type'', PStr ''flat''),
        (''effective_from'', PStr ''2024-07-01''),
        (''daily_supply_charge_cents'', PNum (9837 / 100)),
        (''usage_rate_cents_per_kwh'', PNum (369 / 20))]]"
| "sample_tariffs ESSENTIAL_ENERGY =
       [[(''tariff_code'', PStr ''BLNN2AU''),
        (''tariff_name'', PStr ''Residential Single Rate''),
        (''network_provider'', PStr ''essential_energy''),
        (''tariff_type'', PStr ''flat''),
        (''effective_from'', PStr ''2024-07-01''),
        (''daily_supply_charge_cents'', PNum (576 / 5)),
        (''usage_rate_cents_per_kwh'', PNum (297 / 20))]]"
| "sample_tariffs ENDEAVOUR_ENERGY =
       [[(''tariff_code'', PStr ''N70''),
        (''tariff_name'', PStr ''Residential Time of Use''),
        (''network_provider'', PStr ''endeavour_energy''),
        (''tariff_type'', PStr ''tou''),
        (''effective_from'', PStr ''2024-07-01''),
        (''daily_supply_charge_cents'', PNum (179 / 2)),
        (''time_periods'', PList
          [PDict [(''name'', PStr ''peak''), (''start_time'', PStr ''13:00''), (''end_time'', PStr ''20:00''),
            (''days'', PList [PNum 0, PNum 1, PNum 2, PNum 3, PNum 4]), (''rate_cents_per_kwh'', PNum (1491 / 50))],
           PDict [(''name'', PStr ''shoulder''), (''start_time'', PStr ''07:00''), (''end_time'', PStr ''13:00''),
            (''days'', PList [PNum 0, PNum 1, PNum 2, PNum 3, PNum 4]), (''rate_cents_per_kwh'', PNum (1143 / 100))],
           PDict [(''name'', PStr ''off_peak''), (''start_time'', PStr ''20:00''), (''end_time'', PStr ''07:00''),
            (''days'', PList [PNum 0, PNum 1, PNum 2, PNum 3, PNum 4, PNum 5, PNum 6]), (''rate_cents_per_kwh'', PNum (789 / 100))]])]]"
| "sample_tariffs AUSNET_SERVICES =
       [[(''tariff_code'', PStr ''NAST11''),
        (''tariff_name'', PStr ''Small Residential TOU Weekday''),
        (''network_provider'', PStr ''ausnet_services''),
        (''tariff_type'', PStr ''tou''),
        (''effective_from'', PStr ''2024-01-01''),
        (''daily_supply_charge_cents'', PNum (208 / 5)),
        (''time_periods'', PList
          [PDict [(''name'', PStr ''peak''), (''start_time'', PStr ''15:00''), (''end_time'', PStr ''21:00''),
            (''days'', PList [PNum 0, PNum 1, PNum 2, PNum 3, PNum 4]), (''rate_cents_per_kwh'', PNum (907 / 50))],
           PDict [(''name'', PStr ''off_peak''), (''start_time'', PStr ''00:00''), (''end_time'', PStr ''15:00''),
            (''days'', PList [PNum 0, PNum 1, PNum 2, PNum 3, PNum 4, PNum 5, PNum 6]), (''rate_cents_per_kwh'', PNum (683 / 100))],
           PDict [(''name'', PStr ''off_peak''), (''start_time'', PStr ''21:00''), (''end_time'', PStr ''24:00''),
            (''days'', PList [PNum 0, PNum 1, PNum 2, PNum 3, PNum 4, PNum 5, PNum 6]), (''rate_cents_per_kwh'', PNum (683 / 100))]])]]"
| "sample_tariffs POWERCOR =
       [[(''tariff_code'', PStr ''D1''),
        (''tariff_name'', PStr ''Residential Single Rate''),
        (''network_provider'', PStr ''powercor''),
        (''tariff_type'', PStr ''flat''),
        (''effective_from'', PStr ''2024-01-01''),
        (''daily_supply_charge_cents'', PNum (276 / 5)),
        (''usage_rate_cents_per_kwh'', PNum (197 / 20))]]"
| "sample_tariffs JEMENA =
       [[(''tariff_code'', PStr ''A100''),
        (''tariff_name'', PStr ''Residential Anytime''),
        (''network_provider'', PStr ''jemena''),
        (''tariff_type'', PStr ''flat''),
        (''effective_from'', PStr ''2024-01-01''),
        (''daily_supply_charge_cents'', PNum (367 / 10)),
        (''usage_rate_cents_per_kwh'', PNum (33 / 4))]]"
| "sample_tariffs CITIPOWER =
       [[(''tariff_code'', PStr ''C1R''),
        (''tariff_name'', PStr ''Residential Single Rate''),
        (''network_provider'', PStr ''citipower''),
        (''tariff_type'', PStr ''flat''),
        (''effective_from'', PStr ''2024-01-01''),
        (''daily_supply_charge_cents'', PNum (319 / 10)),
        (''usage_rate_cents_per_kwh'', PNum (35 / 4))]]"
| "sample_tariffs UNITED_ENERGY =
       [[(''tariff_code'', PStr ''LVS1R''),
        (''tariff_name'', PStr ''Residential Single Rate''),
        (''network_provider'', PStr ''united_energy''),
        (''tariff_type'', PStr ''flat''),
        (''effective_from'', PStr ''2024-01-01''),
        (''daily_supply_charge_cents'', PNum (69 / 2)),
        (''usage_rate_cents_per_kwh'', PNum (169 / 20))]]"
| "sample_tariffs TASNETWORKS =
       [[(''tariff_code'', PStr ''TAS31''),
        (''tariff_name'', PStr ''Residential Light and Power''),
        (''network_provider'', PStr ''tasnetworks''),
        (''tariff_type'', PStr ''flat''),
        (''effective_from'', PStr ''2024-07-01''),
        (''daily_supply_charge_cents'', PNum (85 / 2)),
        (''usage_rate_cents_per_kwh'', PNum (64 / 5))]]"

definition tariff_answer :: "NetworkProvider \<Rightarrow> (string \<times> pyval) list \<Rightarrow> pyval" where
  \<comment> \<open>the dictionary that \<open>get_tariff_by_code\<close> returns for a tariff \<open>t\<close> of provider \<open>p\<close>\<close>
  "tariff_answer p t =
     PDict [(''network_tariff'', PDict
               [(''tariff_code'', dict_get t ''tariff_code'' PNone),
                (''tariff_name'', dict_get t ''tariff_name'' PNone),
                (''network_provider'', PStr (provider_value p)),
                (''tariff_type'', dict_get t ''tariff_type'' PNone),
                (''effective_from'', dict_get t ''effective_from'' PNone),
                (''daily_supply_charge_cents'', dict_get t ''daily_supply_charge_cents'' PNone),
                (''usage_rate_cents_per_kwh'', dict_get t ''usage_rate_cents_per_kwh'' (PNum 0)),
                (''time_periods'', dict_get t ''time_periods'' (PList []))]),
            (''last_updated'', PClock),
            (''source_url'', PStr (''https://'' @ filter (\<lambda>c. c \<noteq> CHR ''_'') (provider_value p)
                                   @ ''.com.au/tariffs''))]"

fun find_tariff :: "NetworkProvider \<Rightarrow> string \<Rightarrow> (string \<times> pyval) list list \<Rightarrow> pyval option" where
  "find_tariff p tariff_code [] = None"
| "find_tariff p tariff_code (t # ts) =
     (if dict_get t ''tariff_code'' PNone = PStr tariff_code then Some (tariff_answer p t)
      else find_tariff p tariff_code ts)"

fun search_providers :: "string \<Rightarrow> NetworkProvider list \<Rightarrow> pyval option" where
  "search_providers tariff_code [] = None"
| "search_providers tariff_code (p # ps) =
     (case find_tariff p tariff_code (sample_tariffs p) of
        Some r \<Rightarrow> Some r
      | None \<Rightarrow> search_providers tariff_code ps)"

definition get_tariff_by_code :: "NetworkProvider option \<Rightarrow> string \<Rightarrow> pyval option" where
  "get_tariff_by_code provider tariff_code =
     search_providers tariff_code
       (case provider of Some p \<Rightarrow> [p] | None \<Rightarrow> all_providers)"

section \<open>The invoice calculator\<close>

record calculated_invoice =
  ci_nmi :: string
  ci_billing_period_start :: date
  ci_billing_period_end :: date
  ci_line_items :: "line_item list"
  ci_subtotal :: rat
  ci_gst :: rat
  ci_total :: rat
  ci_calculation_notes :: string

fun find_period_rate :: "pyval list \<Rightarrow> string \<Rightarrow> (error + rat) option" where
  \<comment> \<open>the loop over the periods: the answer of the first period whose name matches\<close>
  "find_period_rate [] period_name = None"
| "find_period_rate (period # rest) period_name =
     (case period of
        PDict d \<Rightarrow>
          (case dict_get d ''name'' (PStr []) of
             PStr n \<Rightarrow>
               if py_lower n = py_lower period_name
               then Some (to_decimal (dict_get d ''rate_cents_per_kwh'' (PNum 25)))
               else find_period_rate rest period_name
           | _ \<Rightarrow> Some (Inl AttributeError))
      | _ \<Rightarrow> Some (Inl AttributeError))"

definition default_rate :: "string \<Rightarrow> rat" where
  \<comment> \<open>\<open>defaults.get(period_name, 25)\<close>\<close>
  "default_rate period_name =
     (case map_of [(''peak'', 35), (''off_peak'', 18), (''shoulder'', 25)] period_name of
        None \<Rightarrow> 25 | Some r \<Rightarrow> r)"

definition get_period_rate :: "(string \<times> pyval) list \<Rightarrow> string \<Rightarrow> error + rat" where
  "get_period_rate tariff period_name =
     (case dict_get tariff ''time_periods'' (PList []) of
        PList periods \<Rightarrow>
          (case find_period_rate periods period_name of
             Some r \<Rightarrow> r
           | None \<Rightarrow> Inr (default_rate period_name))
      | _ \<Rightarrow> Inl TypeError)"

definition quantize :: "rat \<Rightarrow> error + rat" where
  \<comment> \<open>\<open>x.quantize(Decimal('0.01'), rounding=ROUND_HALF_UP)\<close> in the default context of 28
      digits: \<open>InvalidOperation\<close> when the result would need more than 28 digits\<close>
  "quantize x =
     (if 10 ^ 26 \<le> \<bar>quantize_half_up x\<bar> then Inl InvalidOperation
      else Inr (quantize_half_up x))"

definition usage_item :: "string \<Rightarrow> rat \<Rightarrow> rat \<Rightarrow> string \<Rightarrow> error + line_item" where
  \<comment> \<open>a usage line: \<open>kwh\<close> at \<open>rate\<close> cents per kWh\<close>
  "usage_item description kwh rate network_tariff_code =
     (case quantize (kwh * rate / 100) of
        Inl e \<Rightarrow> Inl e
      | Inr amount \<Rightarrow>
          Inr \<lparr> li_description = Some description,
                li_charge_type = Some ''usage'',
                li_quantity = Some kwh,
                li_unit = Some ''kWh'',
                li_rate = Some (rate / 100),
                li_amount = Some amount,
                li_tariff_code = Some network_tariff_code,
                li_period_start = None,
                li_period_end = None \<rparr>)"

definition usage_line :: "bool \<Rightarrow> string \<Rightarrow> rat \<Rightarrow> rat \<Rightarrow> string \<Rightarrow> error + line_item list" where
  \<comment> \<open>the usage line of one bucket, appended only if the bucket holds consumption\<close>
  "usage_line billed description kwh rate network_tariff_code =
     (if billed then
        (case usage_item description kwh rate network_tariff_code of
           Inl e \<Rightarrow> Inl e
         | Inr item \<Rightarrow> Inr [item])
      else Inr [])"

text \<open>
  The catalogue answers with a dictionary or with \<open>None\<close>; an empty dictionary is as false
  as \<open>None\<close> in the tests \<open>if network_tariff\<close>.
\<close>

definition supply_items :: "pyval option \<Rightarrow> string \<Rightarrow> date \<Rightarrow> date \<Rightarrow> int
    \<Rightarrow> error + line_item list" where
  "supply_items network_tariff network_tariff_code period_start period_end billing_days =
     (case network_tariff of
        Some (PDict d) \<Rightarrow>
          (case (if d = [] then Inl None
                 else case to_decimal (dict_get d ''daily_supply_charge_cents'' (PNum 100)) of
                        Inl e \<Rightarrow> Inl (Some e) | Inr cents \<Rightarrow> Inr cents) of
             Inl None \<Rightarrow> Inr []
           | Inl (Some e) \<Rightarrow> Inl e
           | Inr cents \<Rightarrow>
               (let daily_supply = cents / 100
                in case quantize (daily_supply * of_int billing_days) of
                     Inl e \<Rightarrow> Inl e
                   | Inr supply_amount \<Rightarrow>
                       Inr [\<lparr> li_description = Some ''Daily Supply Charge'',
                              li_charge_type = Some ''supply'',
                              li_quantity = Some (of_int billing_days),
                              li_unit = Some ''day'',
                              li_rate = Some daily_supply,
                              li_amount = Some supply_amount,
                              li_tariff_code = Some network_tariff_code,
                              li_period_start = Some period_start,
                              li_period_end = Some period_end \<rparr>]))
      | _ \<Rightarrow> Inr [])"

definition usage_items :: "pyval option \<Rightarrow> string \<Rightarrow> consumption_summary
    \<Rightarrow> error + line_item list" where
  "usage_items network_tariff network_tariff_code summary =
     (case network_tariff of
        Some (PDict d) \<Rightarrow>
          if truthy (dict_get d ''time_periods'' PNone) then
            (case get_period_rate d ''peak'' of
               Inl e \<Rightarrow> Inl e
             | Inr peak_rate \<Rightarrow>
                 (case get_period_rate d ''off_peak'' of
                    Inl e \<Rightarrow> Inl e
                  | Inr off_peak_rate \<Rightarrow>
                      (case usage_line (0 < s_peak_kwh summary) ''Peak Energy Usage''
                              (s_peak_kwh summary) peak_rate network_tariff_code of
                         Inl e \<Rightarrow> Inl e
                       | Inr peak_items \<Rightarrow>
                           (case usage_line (0 < s_off_peak_kwh summary)
                                   ''Off-Peak Energy Usage'' (s_off_peak_kwh summary)
                                   off_peak_rate network_tariff_code of
                              Inl e \<Rightarrow> Inl e
                            | Inr off_peak_items \<Rightarrow> Inr (peak_items @ off_peak_items)))))
          else
            (case to_decimal (dict_get d ''usage_rate_cents_per_kwh'' (PNum 25)) of
               Inl e \<Rightarrow> Inl e
             | Inr flat_rate \<Rightarrow>
                 usage_line True ''Energy Usage'' (s_total_kwh summary) flat_rate
                   network_tariff_code)
      | _ \<Rightarrow> usage_line True ''Energy Usage'' (s_total_kwh summary) 25 network_tariff_code)"

definition network_item :: "rat \<Rightarrow> error + line_item" where
  "network_item total_kwh =
     (case quantize (total_kwh * (8 / 100)) of
        Inl e \<Rightarrow> Inl e
      | Inr amount \<Rightarrow>
          Inr \<lparr> li_description = Some ''Network Charges'',
                li_charge_type = Some ''network'',
                li_quantity = Some total_kwh,
                li_unit = Some ''kWh'',
                li_rate = Some (8 / 100),
                li_amount = Some amount,
                li_tariff_code = None,
                li_period_start = None,
                li_period_end = None \<rparr>)"

definition billing_period :: "string option \<Rightarrow> string option \<Rightarrow> consumption_summary
    \<Rightarrow> error + (date \<times> date)" where
  \<comment> \<open>the period of the request if both ends are given, else that of the summary; a missing
      date of the summary fails in the subtraction that counts the days\<close>
  "billing_period billing_start billing_end summary =
     (if billing_start \<noteq> None \<and> billing_start \<noteq> Some [] \<and> billing_end \<noteq> None
         \<and> billing_end \<noteq> Some [] then
        (case strptime ''-'' (the billing_start) of
           None \<Rightarrow> Inl (ValueError ''time data does not match format'')
         | Some period_start \<Rightarrow>
             (case strptime ''-'' (the billing_end) of
                None \<Rightarrow> Inl (ValueError ''time data does not match format'')
              | Some period_end \<Rightarrow> Inr (period_start, period_end)))
      else
        (case (s_period_start summary, s_period_end summary) of
           (Some period_start, Some period_end) \<Rightarrow> Inr (period_start, period_end)
         | _ \<Rightarrow> Inl TypeError))"

definition calculate :: "(string \<Rightarrow> file_data option) \<Rightarrow> string \<Rightarrow> string \<Rightarrow> string option
    \<Rightarrow> string option \<Rightarrow> string option \<Rightarrow> error + calculated_invoice" where
  "calculate store nem12_file_id network_tariff_code retail_plan_name billing_start billing_end =
     (case get_consumption_summary store nem12_file_id of
        [] \<Rightarrow> Inl (ValueError ''No consumption data found for file ID'')
      | summary # other \<Rightarrow>
          (let network_tariff = get_tariff_by_code None network_tariff_code
           in case billing_period billing_start billing_end summary of
                Inl e \<Rightarrow> Inl e
              | Inr (period_start, period_end) \<Rightarrow>
                  (let billing_days = toordinal period_end - toordinal period_start + 1
                   in case supply_items network_tariff network_tariff_code period_start
                             period_end billing_days of
                        Inl e \<Rightarrow> Inl e
                      | Inr supply \<Rightarrow>
                          (case usage_items network_tariff network_tariff_code summary of
                             Inl e \<Rightarrow> Inl e
                           | Inr usage \<Rightarrow>
                               (case network_item (s_total_kwh summary) of
                                  Inl e \<Rightarrow> Inl e
                                | Inr network \<Rightarrow>
                                    (let line_items = supply @ usage @ [network];
                                         subtotal = sum_list (map get_amount line_items)
                                     in case quantize (subtotal * (10 / 100)) of
                                          Inl e \<Rightarrow> Inl e
                                        | Inr gst \<Rightarrow>
                                            Inr \<lparr> ci_nmi = s_nmi summary,
                                                  ci_billing_period_start = period_start,
                                                  ci_billing_period_end = period_end,
                                                  ci_line_items = line_items,
                                                  ci_subtotal = subtotal,
                                                  ci_gst = gst,
                                                  ci_total = subtotal + gst,
                                                  ci_calculation_notes =
                                                    ''Calculated using tariff ''
                                                      @ network_tariff_code \<rparr>))))))"

section \<open>The reconciliation run\<close>

record parsed_invoice =
  pi_invoice_number :: string
  pi_nmi :: "string option"
  pi_billing_period_start :: "date option"
  pi_billing_period_end :: "date option"
  pi_line_items :: "line_item list"
  pi_total :: rat

text \<open>
  The summary of a run, without its free-text recommendations.
\<close>

record reconciliation_summary =
  rs_reconciliation_id :: string
  rs_nmi :: "string option"
  rs_invoice_number :: string
  rs_billing_period_start :: "date option"
  rs_billing_period_end :: "date option"
  rs_invoiced_total :: rat
  rs_calculated_total :: rat
  rs_total_difference :: rat
  rs_total_percentage_difference :: rat
  rs_line_items :: "line_reconciliation list"
  rs_matched_items :: nat
  rs_minor_discrepancies :: nat
  rs_significant_discrepancies :: nat
  rs_missing_items :: nat
  rs_overall_status :: DiscrepancyStatus
  rs_confidence_score :: rat

record engine =
  e_invoices :: "string \<Rightarrow> parsed_invoice option"
  e_file_data :: "string \<Rightarrow> file_data option"
  e_reconciliations :: "string \<Rightarrow> reconciliation_summary option"

definition count_status :: "DiscrepancyStatus list \<Rightarrow> line_reconciliation list \<Rightarrow> nat" where
  \<comment> \<open>\<open>sum(1 for r in line_reconciliations if r['status'] in statuses)\<close>\<close>
  "count_status statuses rs = length (filter (\<lambda>r. r_status r \<in> set statuses) rs)"

definition overall_status_of :: "nat \<Rightarrow> nat \<Rightarrow> nat \<Rightarrow> rat \<Rightarrow> rat \<Rightarrow> DiscrepancyStatus" where
  "overall_status_of significant minor missing total_percentage tolerance_percent =
     (if 0 < significant \<or> 5 < \<bar>total_percentage\<bar> then SIGNIFICANT
      else if 0 < minor \<or> 0 < missing \<or> tolerance_percent < \<bar>total_percentage\<bar> then MINOR
      else MATCH)"

definition total_percentage_of :: "(rat \<Rightarrow> rat \<Rightarrow> rat) \<Rightarrow> rat \<Rightarrow> rat \<Rightarrow> rat" where
  "total_percentage_of float_pct invoiced_total calculated_total =
     (if 0 < calculated_total then float_pct invoiced_total calculated_total
      else if invoiced_total - calculated_total \<noteq> 0 then 100 else 0)"

definition confidence_of :: "(nat \<Rightarrow> nat \<Rightarrow> rat) \<Rightarrow> nat \<Rightarrow> nat \<Rightarrow> rat" where
  \<comment> \<open>\<open>matched / total_items if total_items > 0 else 0.0\<close>\<close>
  "confidence_of float_div matched total_items =
     (if 0 < total_items then float_div matched total_items else 0)"

definition reconcile :: "(rat \<Rightarrow> rat \<Rightarrow> rat) \<Rightarrow> (nat \<Rightarrow> nat \<Rightarrow> rat) \<Rightarrow> (rat \<Rightarrow> rat) \<Rightarrow> engine
    \<Rightarrow> string \<Rightarrow> string \<Rightarrow> string \<Rightarrow> string option \<Rightarrow> string option
    \<Rightarrow> rat \<Rightarrow> error + (reconciliation_summary \<times> engine)" where
  \<comment> \<open>\<open>reconciliation_id\<close> is the identifier that the run draws at random; \<open>float_pct\<close>,
      \<open>float_div\<close> and \<open>round2\<close> are the floating-point operations\<close>
  "reconcile float_pct float_div round2 eng reconciliation_id invoice_file_id nem12_file_id
     network_tariff_code retail_plan_name tolerance_percent =
     (case e_invoices eng invoice_file_id of
        None \<Rightarrow> Inl (ValueError ''Parsed invoice not found'')
      | Some parsed \<Rightarrow>
          (case calculate (e_file_data eng) nem12_file_id
                  (case network_tariff_code of
                     None \<Rightarrow> ''EA010''
                   | Some c \<Rightarrow> if c = [] then ''EA010'' else c)
                  retail_plan_name
                  (map_option isoformat (pi_billing_period_start parsed))
                  (map_option isoformat (pi_billing_period_end parsed)) of
             Inl e \<Rightarrow> Inl e
           | Inr calculated \<Rightarrow>
               (let line_reconciliations =
                      reconcile_line_items_on float_pct round2 (pi_line_items parsed)
                        (ci_line_items calculated) tolerance_percent;
                    invoiced_total = pi_total parsed;
                    calculated_total = ci_total calculated;
                    total_difference = invoiced_total - calculated_total;
                    total_percentage = total_percentage_of float_pct invoiced_total
                                         calculated_total;
                    matched = count_status [MATCH] line_reconciliations;
                    minor = count_status [MINOR] line_reconciliations;
                    significant = count_status [SIGNIFICANT] line_reconciliations;
                    missing = count_status [MISSING_INVOICED, MISSING_CALCULATED]
                                line_reconciliations;
                    overall_status = overall_status_of significant minor missing
                                       total_percentage tolerance_percent;
                    total_items = length line_reconciliations;
                    confidence = confidence_of float_div matched total_items;
                    result =
                      \<lparr> rs_reconciliation_id = reconciliation_id,
                        rs_nmi = pi_nmi parsed,
                        rs_invoice_number = pi_invoice_number parsed,
                        rs_billing_period_start = pi_billing_period_start parsed,
                        rs_billing_period_end = pi_billing_period_end parsed,
                        rs_invoiced_total = invoiced_total,
                        rs_calculated_total = calculated_total,
                        rs_total_difference = total_difference,
                        rs_total_percentage_difference = round2 total_percentage,
                        rs_line_items = line_reconciliations,
                        rs_matched_items = matched,
                        rs_minor_discrepancies = minor,
                        rs_significant_discrepancies = significant,
                        rs_missing_items = missing,
                        rs_overall_status = overall_status,
                        rs_confidence_score = round2 confidence \<rparr>
                in Inr (result, eng \<lparr> e_reconciliations :=
                          (e_reconciliations eng)(reconciliation_id \<mapsto> result) \<rparr>))))"

subsection \<open>The classification and the confidence score as the specification words them\<close>




section \<open>Inputs for the worked evaluations\<close>

definition plain_item :: "string \<Rightarrow> string \<Rightarrow> rat \<Rightarrow> line_item" where
  \<comment> \<open>a line item with a description, a charge type and an amount\<close>
  "plain_item description charge_type amount =
     \<lparr> li_description = Some description, li_charge_type = Some charge_type,
       li_quantity = None, li_unit = None, li_rate = None, li_amount = Some amount,
       li_tariff_code = None, li_period_start = None, li_period_end = None \<rparr>"

definition two_type_items :: "line_item list" where
  "two_type_items = [plain_item ''Energy Usage'' ''usage'' 10,
                     plain_item ''Daily Supply Charge'' ''supply'' 5]"


definition one_reading_file :: string where
  \<comment> \<open>one channel with a single reading of 1.0 on 1 January 2024\<close>
  "one_reading_file = ''200,6001000001,E1,E1,E1,N1,M1,kWh,30'' @ [CHR 0x0A]
     @ ''300,20240101,1.0'' @ [CHR 0x0A] @ ''900''"

definition peak_file :: string where
  \<comment> \<open>one channel, Monday 1 January 2024, fifteen half-hours of 1.0: fourteen before 07:00
      and one from 07:00\<close>
  "peak_file = ''200,6001000001,E1,E1,E1,N1,M1,kWh,30'' @ [CHR 0x0A]
     @ ''300,20240101'' @ concat (replicate 15 '',1.0'') @ [CHR 0x0A] @ ''900''"

definition repeated_nmi_file :: string where
  \<comment> \<open>two channels (registers E1 and B1) of one metering point\<close>
  "repeated_nmi_file = ''200,6001000001,E1B1,E1,E1,N1,M1,kWh,30'' @ [CHR 0x0A]
     @ ''300,20240101,1.0'' @ [CHR 0x0A]
     @ ''200,6001000001,E1B1,B1,B1,N1,M1,kWh,30'' @ [CHR 0x0A]
     @ ''300,20240101,2.0'' @ [CHR 0x0A] @ ''900''"

definition unterminated_file :: string where
  \<comment> \<open>the same two channels without the closing 900 row\<close>
  "unterminated_file = ''200,6001000001,E1B1,E1,E1,N1,M1,kWh,30'' @ [CHR 0x0A]
     @ ''300,20240101,1.0'' @ [CHR 0x0A]
     @ ''200,6001000001,E1B1,B1,B1,N1,M1,kWh,30'' @ [CHR 0x0A]
     @ ''300,20240101,2.0''"

definition damaged_file :: string where
  \<comment> \<open>a file with an unknown row, a day block with a bad date and a bad reading\<close>
  "damaged_file = ''100,NEM12'' @ [CHR 0x0A] @ ''garbage'' @ [CHR 0x0A]
     @ ''200,6001000001,E1,E1,E1,N1,M1,kWh,30'' @ [CHR 0x0A]
     @ ''300,2024-01-01,1.0'' @ [CHR 0x0A]
     @ ''300,20240102,1.0,x,2.5'' @ [CHR 0x0A] @ ''900''"








definition readings_in_period :: "(string \<Rightarrow> file_data option) \<Rightarrow> string \<Rightarrow> date \<Rightarrow> date
    \<Rightarrow> interval list" where
  \<comment> \<open>the stored readings of a file that are dated within a period\<close>
  "readings_in_period store file_id period_start period_end =
     (case store file_id of
        None \<Rightarrow> []
      | Some data \<Rightarrow>
          concat (map (\<lambda>meter.
              filter (\<lambda>iv. \<not> date_less (i_date iv) period_start
                            \<and> \<not> date_less period_end (i_date iv))
                (intervals_get (fd_intervals data) (m_nmi meter)))
            (fd_meters data)))"

definition half_hour_meter :: meter where
  \<comment> \<open>the meter that the channel record \<open>200,6001000001,E1,E1,E1,N1,M1,kWh,30\<close> opens\<close>
  "half_hour_meter =
     \<lparr> m_nmi = ''6001000001'', m_nmi_configuration = ''E1'', m_register_id = ''E1'',
       m_nmi_suffix = ''E1'', m_meter_serial = Some ''M1'', m_unit_of_measure = ''kWh'',
       m_interval_length = 30, m_start_date = None, m_end_date = None,
       m_total_consumption = 0, m_total_generation = None, m_interval_count = None \<rparr>"

definition day_block_fields :: "string list" where
  \<comment> \<open>a day block with three fields, the second of which is not a number\<close>
  "day_block_fields = [''300'', ''20240102'', ''1.0'', ''x'', ''2.5'']"


definition sample_engine :: engine where
  \<comment> \<open>an engine that holds the file with one reading and an invoice of three lines for
      1 January 2024\<close>
  "sample_engine =
     \<lparr> e_invoices = [''invoice'' \<mapsto>
         \<lparr> pi_invoice_number = ''INV-2024-001234'',
           pi_nmi = Some ''6001000001'',
           pi_billing_period_start = Some (2024, 1, 1),
           pi_billing_period_end = Some (2024, 1, 1),
           pi_line_items = [plain_item ''Energy Usage'' ''usage'' (1 / 4),
                            plain_item ''Meter Fee'' ''metering'' 2,
                            plain_item ''Green Power'' ''environmental'' 3],
           pi_total = 289 / 50 \<rparr>],
       e_file_data =
         (case process_nem12 float_of_decimal Map.empty ''upload'' one_reading_file of
            Inl e \<Rightarrow> Map.empty
          | Inr (meters, store) \<Rightarrow> store),
       e_reconciliations = Map.empty \<rparr>"

definition zero_interval_file :: string where
  \<comment> \<open>a channel that declares an interval length of 0, followed by a day block\<close>
  "zero_interval_file = ''200,6001000001,E1,E1,E1,N1,M1,kWh,0'' @ [CHR 0x0A]
     @ ''300,20240101,1.0'' @ [CHR 0x0A] @ ''900''"

definition opens_or_closes :: "string \<Rightarrow> bool" where
  \<comment> \<open>the row is a channel record (200) or the terminator (900)\<close>
  "opens_or_closes line =
     (case py_split CHR '','' (py_strip line) of
        [] \<Rightarrow> False
      | record_type # other \<Rightarrow> record_type = ''200'' \<or> record_type = ''900'')"

definition is_channel_record :: "string \<Rightarrow> bool" where
  "is_channel_record line =
     (case py_split CHR '','' (py_strip line) of
        [] \<Rightarrow> False
      | record_type # other \<Rightarrow> record_type = ''200'')"

definition run_wf :: "nem12_run \<Rightarrow> bool" where
  \<comment> \<open>every reference of a run points to an object that exists\<close>
  "run_wf st = (list_all (\<lambda>a. a < length (run_objects st)) (run_meters st)
                \<and> (case run_current_meter st of
                      None \<Rightarrow> True
                    | Some a \<Rightarrow> a < length (run_objects st)))"

section \<open>Properties of the matcher\<close>








lemma unmatched_calculated_status:
  "r \<in> set (unmatched_calculated cbt m) \<Longrightarrow> r_status r = MISSING_INVOICED"
  unfolding unmatched_calculated_def by (auto simp: missing_invoiced_record_def)


text \<open>
  What holds of the record list: the four counts add up to the number of records, and the
  list is one record for each invoiced item, in order, followed by records that are all
  MISSING_INVOICED.
\<close>

lemma status_counts_total:
  "count_status [MATCH] rs + count_status [MINOR] rs + count_status [SIGNIFICANT] rs
     + count_status [MISSING_INVOICED, MISSING_CALCULATED] rs = length rs"
proof (induction rs)
  case Nil
  show ?case by (simp add: count_status_def)
next
  case (Cons r rs)
  then show ?case by (cases "r_status r") (simp_all add: count_status_def)
qed

lemma match_step_invoiced:
  "map (\<lambda>r. (r_description r, r_charge_type r, r_invoiced_amount r))
       (reconciled (match_step fp r2 cbt tol st (i, it)))
     = map (\<lambda>r. (r_description r, r_charge_type r, r_invoiced_amount r)) (reconciled st)
       @ [(get_description it, get_charge_type it, get_amount it)]"
proof (cases "find_best (get_amount it) (calculated_matched st)
                (enumerate 0 (calc_by_type_get cbt (get_charge_type it))) None")
  case None
  then show ?thesis by (simp add: match_step_def missing_calculated_record_def)
next
  case (Some t)
  obtain j c d where "t = (j, c, d)" by (cases t)
  with Some show ?thesis by (simp add: match_step_def matched_record_def Let_def)
qed

lemma invoiced_items_one_record_each:
  "map (\<lambda>r. (r_description r, r_charge_type r, r_invoiced_amount r))
       (reconciled (foldl (match_step fp r2 cbt tol) st ps))
     = map (\<lambda>r. (r_description r, r_charge_type r, r_invoiced_amount r)) (reconciled st)
       @ map (\<lambda>p. (get_description (snd p), get_charge_type (snd p), get_amount (snd p))) ps"
proof (induction ps arbitrary: st)
  case Nil
  show ?case by simp
next
  case (Cons p ps)
  obtain i it where p: "p = (i, it)" by (cases p)
  show ?case by (simp add: Cons.IH p match_step_invoiced)
qed

lemma invoiced_records_then_missing_invoiced:
  "\<exists>rs ms. reconcile_line_items_on fp r2 invoiced calculated tol = rs @ ms
     \<and> map (\<lambda>r. (r_description r, r_charge_type r, r_invoiced_amount r)) rs
         = map (\<lambda>it. (get_description it, get_charge_type it, get_amount it)) invoiced
     \<and> list_all (\<lambda>r. r_status r = MISSING_INVOICED) ms"
proof -
  let ?cbt = "calc_by_type_of calculated"
  let ?st = "foldl (match_step fp r2 ?cbt tol)
       \<lparr> reconciled = [], invoiced_matched = {}, calculated_matched = {} \<rparr> (enumerate 0 invoiced)"
  have a: "reconcile_line_items_on fp r2 invoiced calculated tol
      = reconciled ?st @ unmatched_calculated ?cbt (calculated_matched ?st)"
    by (simp add: reconcile_line_items_on_def Let_def)
  have b: "map (\<lambda>r. (r_description r, r_charge_type r, r_invoiced_amount r)) (reconciled ?st)
         = map (\<lambda>it. (get_description it, get_charge_type it, get_amount it)) invoiced"
  proof -
    have e: "map (\<lambda>p. (get_description (snd p), get_charge_type (snd p), get_amount (snd p)))
            (enumerate 0 invoiced)
          = map (\<lambda>it. (get_description it, get_charge_type it, get_amount it))
              (map snd (enumerate 0 invoiced))"
      by (simp only: map_map comp_def)
    have f: "map snd (enumerate 0 invoiced) = invoiced"
      by (rule map_snd_enumerate)
    show ?thesis
      unfolding invoiced_items_one_record_each e f by simp
  qed
  have c: "list_all (\<lambda>r. r_status r = MISSING_INVOICED)
             (unmatched_calculated ?cbt (calculated_matched ?st))"
    by (simp add: list_all_iff unmatched_calculated_status)
  from a b c show ?thesis by blast
qed

text \<open>
  C1. Every invoiced item and every calculated item should appear in exactly one record.
  The set \<open>calculated_matched\<close> holds positions inside a bucket but is shared by all
  buckets: on an invoice with a usage line and a supply line that equal the two calculated
  lines, the usage pair takes position 0, the supply line then finds position 0 of its own
  bucket taken, and the calculated supply line is reported in no record at all.
\<close>

theorem matcher_drops_calculated_item:
  "map (\<lambda>r. (r_charge_type r, r_invoiced_amount r, r_calculated_amount r, r_status r))
     (reconcile_line_items two_type_items two_type_items 1)
   = [(''usage'', 10, 10, MATCH), (''supply'', 5, 0, MISSING_CALCULATED)]"
  by (simp add: reconcile_line_items_def reconcile_line_items_on_def calc_by_type_of_def
      two_type_items_def plain_item_def get_charge_type_def match_step_def calc_by_type_get_def
      get_amount_def enumerate_eq_zip matched_record_def missing_calculated_record_def
      unmatched_calculated_def pct_diff_of_def exact_pct_def status_of_def Let_def)




section \<open>Properties of the interval store\<close>

lemma read_intervals_eq:
  "read_intervals to_float flds d idxs (ivs, m) =
     (ivs @ map (\<lambda>i. \<lparr> i_date = d, i_interval = i + 1, i_value = the (to_float (flds ! (2 + i))),
                        i_unit = m_unit_of_measure m \<rparr>)
              (filter (\<lambda>i. 2 + i < length flds \<and> to_float (flds ! (2 + i)) \<noteq> None) idxs),
      m \<lparr> m_total_consumption := m_total_consumption m
            + sum_list (map (\<lambda>i. the (to_float (flds ! (2 + i))))
                (filter (\<lambda>i. 2 + i < length flds \<and> to_float (flds ! (2 + i)) \<noteq> None) idxs)) \<rparr>)"
proof (induction idxs arbitrary: ivs m)
  case Nil
  show ?case by simp
next
  case (Cons i idxs)
  show ?case
  proof (cases "2 + i < length flds")
    case False
    then show ?thesis by (simp add: Cons.IH)
  next
    case True
    show ?thesis
    proof (cases "to_float (flds ! (2 + i))")
      case None
      with True show ?thesis by (simp add: Cons.IH)
    next
      case (Some v)
      with True show ?thesis by (simp add: Cons.IH add.assoc)
    qed
  qed
qed

lemma filter_partition_length:
  "length (filter (\<lambda>i. P i \<and> Q i) xs) + length (filter (\<lambda>i. P i \<and> \<not> Q i) xs)
     = length (filter P xs)"
  by (induction xs) auto

text \<open>
  C7. A day block under a channel with a non-zero interval length never raises. It yields at
  most \<open>1440 div interval_length\<close> readings; when its date is valid the readings are exactly
  the fields at positions 2, 3, ... that exist and parse, in order and with their position
  as interval number, so each field that fails to parse lowers the count by one and nothing
  else is lost; and the total of the meter grows by the sum of the readings kept.
\<close>

theorem day_block_reading_count:
  assumes "m_interval_length meter \<noteq> 0"
  shows "\<exists>intervals meter'.
           parse_300_record to_float flds meter = Inr (intervals, meter')
         \<and> length intervals \<le> 1440 div m_interval_length meter
         \<and> (strptime [] (field_or flds 1 []) \<noteq> None \<longrightarrow>
              map (\<lambda>iv. (i_interval iv, i_value iv)) intervals
                = map (\<lambda>i. (i + 1, the (to_float (flds ! (2 + i)))))
                    (filter (\<lambda>i. 2 + i < length flds \<and> to_float (flds ! (2 + i)) \<noteq> None)
                       [0..<1440 div m_interval_length meter])
            \<and> length intervals
                + length (filter (\<lambda>i. 2 + i < length flds \<and> to_float (flds ! (2 + i)) = None)
                            [0..<1440 div m_interval_length meter])
                = length (filter (\<lambda>i. 2 + i < length flds)
                            [0..<1440 div m_interval_length meter])
            \<and> m_total_consumption meter'
                = m_total_consumption meter + sum_list (map i_value intervals))"
proof (cases "strptime [] (field_or flds 1 [])")
  case None
  with assms show ?thesis by (simp add: parse_300_record_def)
next
  case (Some d)
  let ?n = "1440 div m_interval_length meter"
  let ?ok = "\<lambda>i. 2 + i < length flds \<and> to_float (flds ! (2 + i)) \<noteq> None"
  let ?m0 = "update_date_range d meter"
  let ?ivs = "map (\<lambda>i. \<lparr> i_date = d, i_interval = i + 1, i_value = the (to_float (flds ! (2 + i))),
                        i_unit = m_unit_of_measure ?m0 \<rparr>) (filter ?ok [0..<?n])"
  let ?m' = "?m0 \<lparr> m_total_consumption := m_total_consumption ?m0
            + sum_list (map (\<lambda>i. the (to_float (flds ! (2 + i)))) (filter ?ok [0..<?n])) \<rparr>"
  have res: "parse_300_record to_float flds meter = Inr (?ivs, ?m')"
    using assms Some by (simp add: parse_300_record_def Let_def read_intervals_eq)
  have len: "length ?ivs \<le> ?n"
    using length_filter_le [of ?ok "[0..<?n]"] by simp
  have vals: "map (\<lambda>iv. (i_interval iv, i_value iv)) ?ivs
      = map (\<lambda>i. (i + 1, the (to_float (flds ! (2 + i))))) (filter ?ok [0..<?n])"
    by (simp add: comp_def)
  have cnt: "length ?ivs + length (filter (\<lambda>i. 2 + i < length flds \<and> to_float (flds ! (2 + i)) = None) [0..<?n])
      = length (filter (\<lambda>i. 2 + i < length flds) [0..<?n])"
    using filter_partition_length [of "\<lambda>i. 2 + i < length flds" "\<lambda>i. to_float (flds ! (2 + i)) \<noteq> None" "[0..<?n]"]
    by simp
  have m0: "m_total_consumption ?m0 = m_total_consumption meter"
    by (simp add: update_date_range_def Let_def)
  have tot: "m_total_consumption ?m' = m_total_consumption meter + sum_list (map i_value ?ivs)"
    by (simp add: m0 comp_def)
  show ?thesis
    apply (rule exI [of _ ?ivs])
    apply (rule exI [of _ ?m'])
    apply (intro conjI impI)
    apply (rule res)
    apply (rule len)
    apply (rule vals)
    apply (rule cnt)
    apply (rule tot)
    done
qed

theorem day_block_reading_count_witness:
  "m_interval_length half_hour_meter \<noteq> 0
   \<and> strptime [] (field_or day_block_fields 1 []) \<noteq> None
   \<and> (\<exists>intervals meter'.
         parse_300_record float_of_decimal day_block_fields half_hour_meter
           = Inr (intervals, meter')
       \<and> length intervals \<le> 48
       \<and> map (\<lambda>iv. (i_interval iv, i_value iv)) intervals = [(1, 1), (3, 5 / 2)])"
proof -
  have h: "m_interval_length half_hour_meter \<noteq> 0" by code_simp
  have d: "strptime [] (field_or day_block_fields 1 []) \<noteq> None" by code_simp
  have n: "1440 div m_interval_length half_hour_meter = 48" by code_simp
  have v: "map (\<lambda>i. (i + 1, the (float_of_decimal (day_block_fields ! (2 + i)))))
             (filter (\<lambda>i. 2 + i < length day_block_fields
                           \<and> float_of_decimal (day_block_fields ! (2 + i)) \<noteq> None)
                [0..<1440 div m_interval_length half_hour_meter]) = [(1, 1), (3, 5 / 2)]"
    by code_simp
  from day_block_reading_count [OF h, of float_of_decimal day_block_fields]
  obtain intervals meter' where
    p: "parse_300_record float_of_decimal day_block_fields half_hour_meter = Inr (intervals, meter')"
    and l: "length intervals \<le> 1440 div m_interval_length half_hour_meter"
    and m: "strptime [] (field_or day_block_fields 1 []) \<noteq> None \<longrightarrow>
              map (\<lambda>iv. (i_interval iv, i_value iv)) intervals
                = map (\<lambda>i. (i + 1, the (float_of_decimal (day_block_fields ! (2 + i)))))
                    (filter (\<lambda>i. 2 + i < length day_block_fields
                                  \<and> float_of_decimal (day_block_fields ! (2 + i)) \<noteq> None)
                       [0..<1440 div m_interval_length half_hour_meter])"
    by blast
  from m d v have m': "map (\<lambda>iv. (i_interval iv, i_value iv)) intervals = [(1, 1), (3, 5 / 2)]"
    by simp
  from l n have l': "length intervals \<le> 48" by simp
  show ?thesis
    apply (intro conjI)
    apply (rule h)
    apply (rule d)
    apply (rule exI [of _ intervals])
    apply (rule exI [of _ meter'])
    apply (intro conjI)
    apply (rule p)
    apply (rule l')
    apply (rule m')
    done
qed

lemma half_hour_meter_opened:
  "parse_200_record [''200'', ''6001000001'', ''E1'', ''E1'', ''E1'', ''N1'', ''M1'', ''kWh'', ''30'']
     = Inr half_hour_meter"
  by code_simp







lemma finalize_current_length:
  "length (run_objects (finalize_current st)) = length (run_objects st)"
  by (cases "run_current_meter st") (simp_all add: finalize_current_def)





text \<open>
  The descriptors of the meters that a run has listed are those of \<open>listed_channels\<close>: a day
  block and the count of readings change a meter object, but never its descriptor.
\<close>

lemma finalize_current_wf: "run_wf st \<Longrightarrow> run_wf (finalize_current st)"
  by (cases "run_current_meter st") (simp_all add: run_wf_def finalize_current_def)





lemma process_line_wf:
  assumes "run_wf st" and "process_line to_float st line = Inr st'"
  shows "run_wf st'"
proof (cases "py_split CHR '','' (py_strip line)")
  case Nil
  with assms show ?thesis by (simp add: process_line_def)
next
  case (Cons record_type other)
  consider (r200) "record_type = ''200''" | (r300) "record_type = ''300''"
    | (r900) "record_type = ''900''"
    | (other) "record_type \<noteq> ''200''" "record_type \<noteq> ''300''" "record_type \<noteq> ''900''"
    by blast
  then show ?thesis
  proof cases
    case r200
    from finalize_current_wf [OF assms(1)]
    have "list_all (\<lambda>a. a < length (run_objects (finalize_current st)))
            (run_meters (finalize_current st))"
      by (simp add: run_wf_def)
    then have "list_all (\<lambda>a. a < Suc (length (run_objects (finalize_current st))))
            (run_meters (finalize_current st))"
      by (simp add: list_all_iff less_Suc_eq)
    with assms(2) show ?thesis
      by (auto simp: process_line_def Cons r200 Let_def run_wf_def split: sum.splits)
  next
    case r300
    show ?thesis
    proof (cases "run_current_meter st")
      case None
      with assms show ?thesis by (simp add: process_line_def Cons r300)
    next
      case (Some a)
      with assms show ?thesis
        by (auto simp: process_line_def Cons r300 run_wf_def split: sum.splits)
    qed
  next
    case r900
    with assms show ?thesis
      by (auto simp: process_line_def Cons Let_def finalize_current_wf)
  next
    case other
    with assms show ?thesis
      by (auto simp: process_line_def Cons Let_def split: if_splits)
  qed
qed





text \<open>
  The readings of the damaged file that are ingested: the day block with the bad date and
  the field that is not a number are left out, the two other readings are stored.
\<close>

lemma damaged_file_readings:
  "(case process_nem12 float_of_decimal Map.empty ''upload'' damaged_file of
      Inl e \<Rightarrow> None
    | Inr (meters, store) \<Rightarrow>
        Some (map (\<lambda>m. (m_start_date m, m_end_date m, m_total_consumption m,
                         m_interval_count m)) meters,
              map (\<lambda>iv. (i_date iv, i_interval iv, i_value iv))
                (readings_in_period store ''upload'' (2024, 1, 1) (2024, 1, 31))))
   = Some ([(Some (2024, 1, 2), Some (2024, 1, 2), 7 / 2, Some 2)],
           [((2024, 1, 2), 1, 1), ((2024, 1, 2), 3, 5 / 2)])"
  by code_simp

text \<open>
  The raises of the interval store: a day block under a channel that declares an interval
  length of 0 divides by zero, a channel record whose interval length has more than 4300
  digits is refused by \<open>int\<close>, and in both cases the whole file is lost.
\<close>

lemma zero_interval_length_raises:
  "(case process_nem12 float_of_decimal Map.empty ''upload'' zero_interval_file of
      Inl e \<Rightarrow> Some e | Inr r \<Rightarrow> None) = Some ZeroDivisionError"
  by code_simp

lemma long_interval_length_raises:
  assumes "8 < length flds" and "py_isdigit (flds ! 8)" and "4300 < length (flds ! 8)"
  shows "parse_200_record flds
           = Inl (ValueError ''Exceeds the limit (4300 digits) for integer string conversion'')"
  using assms by (simp add: parse_200_record_def int_of_digits_def)

text \<open>
  A channel is listed only by the next channel record or by the terminator. After the last
  channel record of a file, rows of any other type leave the list of meters as it is, so a
  last channel without a terminator is never listed.
\<close>

lemma process_lines_append:
  "process_lines to_float st (xs @ ys) =
     (case process_lines to_float st xs of
        Inl e \<Rightarrow> Inl e
      | Inr st1 \<Rightarrow> process_lines to_float st1 ys)"
  by (induction xs arbitrary: st) (simp_all split: sum.splits)

lemma process_lines_wf:
  "run_wf st \<Longrightarrow> process_lines to_float st lines = Inr st' \<Longrightarrow> run_wf st'"
proof (induction lines arbitrary: st)
  case Nil
  then show ?case by simp
next
  case (Cons line lines)
  from Cons.prems(2) obtain st1 where s: "process_line to_float st line = Inr st1"
    and r: "process_lines to_float st1 lines = Inr st'"
    by (cases "process_line to_float st line") simp_all
  from Cons.IH [OF process_line_wf [OF Cons.prems(1) s] r] show ?case .
qed

lemma channel_record_opens_unlisted:
  assumes "run_wf st" and "is_channel_record line" and "process_line to_float st line = Inr st'"
  shows "\<exists>a. run_current_meter st' = Some a \<and> a \<notin> set (run_meters st')"
proof (cases "py_split CHR '','' (py_strip line)")
  case Nil
  with assms(2) show ?thesis by (simp add: is_channel_record_def)
next
  case (Cons record_type other)
  with assms(2) have r200: "record_type = ''200''" by (simp add: is_channel_record_def)
  from finalize_current_wf [OF assms(1)]
  have "list_all (\<lambda>a. a < length (run_objects (finalize_current st)))
          (run_meters (finalize_current st))"
    by (simp add: run_wf_def)
  then have "length (run_objects (finalize_current st)) \<notin> set (run_meters (finalize_current st))"
    by (auto simp: list_all_iff)
  with assms(3) show ?thesis
    by (auto simp: process_line_def Cons r200 Let_def split: sum.splits)
qed

lemma other_rows_keep_meter_list:
  assumes "\<not> opens_or_closes line" and "process_line to_float st line = Inr st'"
  shows "run_meters st' = run_meters st \<and> run_current_meter st' = run_current_meter st"
proof (cases "py_split CHR '','' (py_strip line)")
  case Nil
  with assms show ?thesis by (simp add: process_line_def)
next
  case (Cons record_type other)
  with assms(1) have n: "record_type \<noteq> ''200''" "record_type \<noteq> ''900''"
    by (simp_all add: opens_or_closes_def)
  show ?thesis
  proof (cases "record_type = ''300''")
    case True
    with assms(2) show ?thesis
      by (cases "run_current_meter st")
         (auto simp: process_line_def Cons split: sum.splits)
  next
    case False
    with assms(2) n show ?thesis
      by (auto simp: process_line_def Cons Let_def split: if_splits)
  qed
qed

lemma trailing_rows_keep_meter_list:
  "list_all (\<lambda>line. \<not> opens_or_closes line) lines
     \<Longrightarrow> process_lines to_float st lines = Inr st'
     \<Longrightarrow> run_meters st' = run_meters st \<and> run_current_meter st' = run_current_meter st"
proof (induction lines arbitrary: st)
  case Nil
  then show ?case by simp
next
  case (Cons line lines)
  from Cons.prems(2) obtain st1 where s: "process_line to_float st line = Inr st1"
    and r: "process_lines to_float st1 lines = Inr st'"
    by (cases "process_line to_float st line") simp_all
  from Cons.prems(1) have a: "\<not> opens_or_closes line"
    and b: "list_all (\<lambda>line. \<not> opens_or_closes line) lines" by simp_all
  from other_rows_keep_meter_list [OF a s] Cons.IH [OF b r] show ?case by simp
qed

lemma unterminated_channel_not_listed:
  assumes "process_lines to_float initial_run (before @ line # after) = Inr st'"
    and "is_channel_record line"
    and "list_all (\<lambda>line. \<not> opens_or_closes line) after"
  shows "\<exists>a. run_current_meter st' = Some a \<and> a \<notin> set (run_meters st')"
proof -
  from assms(1) obtain st1 where b: "process_lines to_float initial_run before = Inr st1"
    and r1: "process_lines to_float st1 (line # after) = Inr st'"
    by (cases "process_lines to_float initial_run before") (simp_all add: process_lines_append)
  from r1 obtain st2 where l: "process_line to_float st1 line = Inr st2"
    and r2: "process_lines to_float st2 after = Inr st'"
    by (cases "process_line to_float st1 line") simp_all
  have "run_wf initial_run" by (simp add: run_wf_def initial_run_def)
  from process_lines_wf [OF this b] have "run_wf st1" .
  from channel_record_opens_unlisted [OF this assms(2) l]
  obtain a where "run_current_meter st2 = Some a" "a \<notin> set (run_meters st2)" by blast
  with trailing_rows_keep_meter_list [OF assms(3) r2] show ?thesis by simp
qed

text \<open>
  Every reading of the list that a summary uses falls into exactly one of the two buckets:
  peak plus off-peak is the sum of that list.
\<close>

lemma split_consumption_fold:
  "foldl (\<lambda>(peak_kwh, off_peak_kwh) iv.
              if is_peak il iv then (peak_kwh + i_value iv, off_peak_kwh)
              else (peak_kwh, off_peak_kwh + i_value iv)) (p, q) ivs = (p', q')
     \<Longrightarrow> p' + q' = p + q + sum_list (map i_value ivs)"
proof (induction ivs arbitrary: p q)
  case Nil
  then show ?case by simp
next
  case (Cons iv ivs)
  show ?case
  proof (cases "is_peak il iv")
    case True
    with Cons.prems Cons.IH [of "p + i_value iv" q] show ?thesis by simp
  next
    case False
    with Cons.prems Cons.IH [of p "q + i_value iv"] show ?thesis by simp
  qed
qed

lemma split_consumption_sum:
  "fst (split_consumption il ivs) + snd (split_consumption il ivs) = sum_list (map i_value ivs)"
  using split_consumption_fold [of il 0 0 ivs "fst (split_consumption il ivs)"
          "snd (split_consumption il ivs)"]
  by (simp add: split_consumption_def)

lemma summarise_buckets:
  "s_peak_kwh (summarise data meter) + s_off_peak_kwh (summarise data meter)
     = sum_list (map i_value (intervals_get (fd_intervals data) (m_nmi meter)))"
  using split_consumption_sum [of "m_interval_length meter"
          "intervals_get (fd_intervals data) (m_nmi meter)"]
  by (auto simp: summarise_def Let_def split: prod.splits)

text \<open>
  C6. The readings are stored under the metering point identifier alone, and every channel
  record resets the list of its identifier. In a file with two channels of one metering
  point the first channel keeps its own total (1.0) while its summary splits the readings
  of the second channel (2.0): peak plus off-peak is 2.0 against a total of 1.0.
\<close>

theorem repeated_nmi_buckets_differ_from_total:
  "(case process_nem12 float_of_decimal Map.empty ''upload'' repeated_nmi_file of
      Inl e \<Rightarrow> None
    | Inr (meters, store) \<Rightarrow>
        Some (map (\<lambda>s. (s_nmi s, s_total_kwh s, s_peak_kwh s, s_off_peak_kwh s))
                (get_consumption_summary store ''upload'')))
   = Some [(''6001000001'', 1, 0, 2), (''6001000001'', 2, 0, 2)]"
  by code_simp

text \<open>
  C10. Without the closing 900 row the second channel is not listed, but its reading (2.0)
  is what the summary of the listed first channel reports, because both channels share the
  metering point identifier under which the readings are stored.
\<close>

theorem unterminated_channel_readings_leak:
  "(case process_nem12 float_of_decimal Map.empty ''upload'' unterminated_file of
      Inl e \<Rightarrow> None
    | Inr (meters, store) \<Rightarrow>
        Some (map m_register_id meters,
              map (\<lambda>s. (s_total_kwh s, s_peak_kwh s, s_off_peak_kwh s))
                (get_consumption_summary store ''upload'')))
   = Some ([''E1''], [(1, 0, 2)])"
  by code_simp

section \<open>Properties of the invoice calculator\<close>

lemma find_tariff_answer:
  "find_tariff p code ts = Some r \<Longrightarrow> \<exists>t. r = tariff_answer p t"
  by (induction ts) (auto split: if_splits)

lemma search_providers_answer:
  "search_providers code ps = Some r \<Longrightarrow> \<exists>p t. r = tariff_answer p t"
proof (induction ps)
  case Nil
  then show ?case by simp
next
  case (Cons p ps)
  show ?case
  proof (cases "find_tariff p code (sample_tariffs p)")
    case None
    with Cons show ?thesis by simp
  next
    case (Some r')
    with Cons.prems have "r = r'" by simp
    with Some find_tariff_answer show ?thesis by blast
  qed
qed

lemma get_tariff_by_code_answer:
  "get_tariff_by_code provider code = None
     \<or> (\<exists>p t. get_tariff_by_code provider code = Some (tariff_answer p t))"
proof (cases "get_tariff_by_code provider code")
  case None
  then show ?thesis by simp
next
  case (Some r)
  then have "\<exists>p t. r = tariff_answer p t"
    unfolding get_tariff_by_code_def by (rule search_providers_answer)
  with Some show ?thesis by simp
qed

text \<open>
  The catalogue answers every code with nothing or with a wrapped tariff, and on both the
  calculator takes its defaults: a supply line at 100 cents a day if there is an answer,
  and one usage line at 25 cents per kWh.
\<close>

lemma supply_items_wrapped:
  "supply_items (get_tariff_by_code None code) code ps pe days =
     (if get_tariff_by_code None code = None then Inr []
      else (case quantize (of_int days) of
              Inl e \<Rightarrow> Inl e
            | Inr supply_amount \<Rightarrow>
                Inr [\<lparr> li_description = Some ''Daily Supply Charge'',
                       li_charge_type = Some ''supply'',
                       li_quantity = Some (of_int days),
                       li_unit = Some ''day'',
                       li_rate = Some 1,
                       li_amount = Some supply_amount,
                       li_tariff_code = Some code,
                       li_period_start = Some ps,
                       li_period_end = Some pe \<rparr>]))"
proof -
  from get_tariff_by_code_answer [of None code]
  show ?thesis
  proof
    assume "get_tariff_by_code None code = None"
    then show ?thesis by (simp add: supply_items_def)
  next
    assume "\<exists>p t. get_tariff_by_code None code = Some (tariff_answer p t)"
    then obtain p t where "get_tariff_by_code None code = Some (tariff_answer p t)" by blast
    then show ?thesis
      by (simp add: supply_items_def tariff_answer_def dict_get_def to_decimal_def)
  qed
qed

lemma usage_items_wrapped:
  "usage_items (get_tariff_by_code None code) code summary
     = usage_line True ''Energy Usage'' (s_total_kwh summary) 25 code"
proof -
  from get_tariff_by_code_answer [of None code]
  show ?thesis
  proof
    assume "get_tariff_by_code None code = None"
    then show ?thesis by (simp add: usage_items_def)
  next
    assume "\<exists>p t. get_tariff_by_code None code = Some (tariff_answer p t)"
    then obtain p t where "get_tariff_by_code None code = Some (tariff_answer p t)" by blast
    then show ?thesis
      by (simp add: usage_items_def tariff_answer_def dict_get_def to_decimal_def truthy_def)
  qed
qed

text \<open>
  Rounding to cents moves an amount by at most half a cent, so it succeeds on every amount
  below \<open>10 ^ 25\<close>; its only error is \<open>InvalidOperation\<close>.
\<close>

lemma quantize_half_up_bound: "\<bar>quantize_half_up x\<bar> \<le> \<bar>x\<bar> + 1 / 200"
proof (cases "0 \<le> x")
  case True
  have a: "of_int \<lfloor>x * 100 + 1 / 2\<rfloor> \<le> x * 100 + 1 / 2" by (rule of_int_floor_le)
  from True have "0 \<le> \<lfloor>x * 100 + 1 / 2\<rfloor>" by simp
  then have b: "(0::rat) \<le> of_int \<lfloor>x * 100 + 1 / 2\<rfloor>" by simp
  from True a b show ?thesis by (simp add: quantize_half_up_def)
next
  case False
  have a: "of_int \<lfloor>- x * 100 + 1 / 2\<rfloor> \<le> - x * 100 + 1 / 2" by (rule of_int_floor_le)
  from False have "0 \<le> \<lfloor>- x * 100 + 1 / 2\<rfloor>" by simp
  then have b: "(0::rat) \<le> of_int \<lfloor>- x * 100 + 1 / 2\<rfloor>" by simp
  from False a b show ?thesis by (simp add: quantize_half_up_def)
qed

lemma quantize_returns:
  assumes "\<bar>x\<bar> \<le> 10 ^ 25"
  shows "quantize x = Inr (quantize_half_up x)"
proof -
  from quantize_half_up_bound [of x] assms have "\<bar>quantize_half_up x\<bar> < 10 ^ 26" by simp
  then show ?thesis by (simp add: quantize_def)
qed

lemma quantize_error: "quantize x = Inl e \<Longrightarrow> e = InvalidOperation"
  by (simp add: quantize_def split: if_splits)

lemma usage_line_error:
  "usage_line billed description kwh rate code = Inl e \<Longrightarrow> e = InvalidOperation"
  by (auto simp: usage_line_def usage_item_def split: if_splits sum.splits dest: quantize_error)

lemma network_item_error: "network_item kwh = Inl e \<Longrightarrow> e = InvalidOperation"
  by (auto simp: network_item_def split: sum.splits dest: quantize_error)

lemma supply_items_error:
  "supply_items (get_tariff_by_code None code) code ps pe days = Inl e \<Longrightarrow> e = InvalidOperation"
  by (auto simp: supply_items_wrapped split: if_splits sum.splits dest: quantize_error)

lemma billing_period_error:
  "billing_period bs be summary = Inl e
     \<Longrightarrow> e = ValueError ''time data does not match format'' \<or> e = TypeError"
  by (auto simp: billing_period_def split: if_splits option.splits prod.splits)

lemma calculate_error:
  assumes "get_consumption_summary store fid = summary # other"
    and "calculate store fid code plan bs be = Inl e"
  shows "e = ValueError ''time data does not match format'' \<or> e = TypeError
           \<or> e = InvalidOperation"
proof (cases "billing_period bs be summary")
  case (Inl e')
  with assms have "e = e'" by (simp add: calculate_def)
  with billing_period_error [OF Inl] show ?thesis by auto
next
  case (Inr pr)
  obtain ps pe where pr: "pr = (ps, pe)" by (cases pr)
  let ?days = "toordinal pe - toordinal ps + 1"
  show ?thesis
  proof (cases "supply_items (get_tariff_by_code None code) code ps pe ?days")
    case s: (Inl e')
    with assms Inr pr have "e = e'" by (simp add: calculate_def Let_def)
    with supply_items_error [OF s] show ?thesis by simp
  next
    case s: (Inr sitems)
    show ?thesis
    proof (cases "usage_line True ''Energy Usage'' (s_total_kwh summary) 25 code")
      case u: (Inl e')
      with assms Inr pr s have "e = e'"
        by (simp add: calculate_def Let_def usage_items_wrapped)
      with usage_line_error [OF u] show ?thesis by simp
    next
      case u: (Inr uitems)
      show ?thesis
      proof (cases "network_item (s_total_kwh summary)")
        case n: (Inl e')
        with assms Inr pr s u have "e = e'"
          by (simp add: calculate_def Let_def usage_items_wrapped)
        with network_item_error [OF n] show ?thesis by simp
      next
        case n: (Inr network)
        from assms Inr pr s u n
        have "quantize (sum_list (map get_amount (sitems @ uitems @ [network])) * (10 / 100))
                = Inl e"
          by (simp add: calculate_def Let_def usage_items_wrapped split: sum.splits)
        from quantize_error [OF this] show ?thesis by simp
      qed
    qed
  qed
qed

text \<open>
  With a consumption of at most \<open>10 ^ 24\<close> kWh and a billing period between two dates, every
  amount of the invoice is far below the limit of the rounding.
\<close>

lemma days_in_month_bounds: "0 \<le> days_in_month y m \<and> days_in_month y m \<le> 31"
  by (simp add: days_in_month_def)

lemma days_in_month_sum:
  "0 \<le> sum_list (map (days_in_month y) ms)
   \<and> sum_list (map (days_in_month y) ms) \<le> 31 * int (length ms)"
proof (induction ms)
  case Nil
  show ?case by simp
next
  case (Cons m ms)
  from days_in_month_bounds [of y m] Cons show ?case by simp
qed

lemma toordinal_bounds:
  assumes "valid_date dt"
  shows "0 \<le> toordinal dt \<and> toordinal dt \<le> 4000000"
proof -
  obtain y m d where dt: "dt = (y, m, d)" by (cases dt)
  from assms have y: "1 \<le> y" "y \<le> 9999" and m: "1 \<le> m" "m \<le> 12"
    and d: "1 \<le> d" "d \<le> days_in_month y m"
    by (simp_all add: valid_date_def dt)
  from days_in_month_bounds [of y m] have d31: "days_in_month y m \<le> 31" by simp
  from days_in_month_sum [of y "[1..m - 1]"] m
  have s: "0 \<le> sum_list (map (days_in_month y) [1..m - 1])"
    "sum_list (map (days_in_month y) [1..m - 1]) \<le> 341"
    by simp_all
  have q: "0 \<le> (y - 1) div 4" "(y - 1) div 4 \<le> 2500" "0 \<le> (y - 1) div 100"
    "(y - 1) div 100 \<le> y - 1" "0 \<le> (y - 1) div 400" "(y - 1) div 400 \<le> 25"
    using y by simp_all
  have p: "0 \<le> (y - 1) * 365" "(y - 1) * 365 \<le> 3649270" using y by simp_all
  from p q s d d31 show ?thesis by (simp add: toordinal_def dt)
qed

lemma supply_items_returns:
  assumes "\<bar>of_int days :: rat\<bar> \<le> 10 ^ 7"
  shows "\<exists>items. supply_items (get_tariff_by_code None code) code ps pe days = Inr items
           \<and> \<bar>sum_list (map get_amount items)\<bar> \<le> 10 ^ 7 + 1"
proof (cases "get_tariff_by_code None code = None")
  case True
  then show ?thesis by (simp add: supply_items_def)
next
  case False
  from assms have "\<bar>of_int days :: rat\<bar> \<le> 10 ^ 25" by simp
  from quantize_returns [OF this]
  have q: "quantize (of_int days) = Inr (quantize_half_up (of_int days))" .
  from quantize_half_up_bound [of "of_int days"] assms
  have "\<bar>quantize_half_up (of_int days)\<bar> \<le> 10 ^ 7 + 1" by simp
  with False show ?thesis by (simp add: supply_items_wrapped q get_amount_def)
qed

lemma usage_line_returns:
  assumes "\<bar>kwh\<bar> \<le> 10 ^ 24"
  shows "\<exists>items. usage_line True description kwh 25 code = Inr items
           \<and> \<bar>sum_list (map get_amount items)\<bar> \<le> 10 ^ 24"
proof -
  from assms have b: "\<bar>kwh * 25 / 100\<bar> \<le> 10 ^ 24 / 4" by (simp add: abs_mult)
  then have "\<bar>kwh * 25 / 100\<bar> \<le> 10 ^ 25" by simp
  from quantize_returns [OF this]
  have q: "quantize (kwh * 25 / 100) = Inr (quantize_half_up (kwh * 25 / 100))" .
  from quantize_half_up_bound [of "kwh * 25 / 100"] b
  have "\<bar>quantize_half_up (kwh * 25 / 100)\<bar> \<le> 10 ^ 24" by simp
  with q show ?thesis by (simp add: usage_line_def usage_item_def get_amount_def)
qed

lemma network_item_returns:
  assumes "\<bar>kwh\<bar> \<le> 10 ^ 24"
  shows "\<exists>item. network_item kwh = Inr item \<and> \<bar>get_amount item\<bar> \<le> 10 ^ 24"
proof -
  from assms have b: "\<bar>kwh * (8 / 100)\<bar> \<le> 10 ^ 24 * (8 / 100)" by (simp add: abs_mult)
  then have "\<bar>kwh * (8 / 100)\<bar> \<le> 10 ^ 25" by simp
  from quantize_returns [OF this]
  have q: "quantize (kwh * (8 / 100)) = Inr (quantize_half_up (kwh * (8 / 100)))" .
  from quantize_half_up_bound [of "kwh * (8 / 100)"] b
  have "\<bar>quantize_half_up (kwh * (8 / 100))\<bar> \<le> 10 ^ 24" by simp
  with q show ?thesis by (simp add: network_item_def get_amount_def)
qed

lemma calculate_returns:
  assumes "get_consumption_summary store fid = summary # other"
    and "billing_period bs be summary = Inr (ps, pe)"
    and "valid_date ps" and "valid_date pe"
    and "\<bar>s_total_kwh summary\<bar> \<le> 10 ^ 24"
  shows "\<exists>ci. calculate store fid code plan bs be = Inr ci"
proof -
  let ?days = "toordinal pe - toordinal ps + 1"
  from toordinal_bounds [OF assms(3)] toordinal_bounds [OF assms(4)]
  have "\<bar>?days\<bar> \<le> 10000000" by linarith
  then have "\<bar>of_int ?days :: rat\<bar> \<le> of_int 10000000"
    by (simp only: of_int_abs [symmetric] of_int_le_iff)
  then have "\<bar>of_int ?days :: rat\<bar> \<le> 10 ^ 7" by simp
  from supply_items_returns [OF this, of code ps pe]
  obtain sitems where s: "supply_items (get_tariff_by_code None code) code ps pe ?days = Inr sitems"
    and sb: "\<bar>sum_list (map get_amount sitems)\<bar> \<le> 10 ^ 7 + 1" by blast
  from usage_line_returns [OF assms(5), of "''Energy Usage''" code]
  obtain uitems where
    u: "usage_line True ''Energy Usage'' (s_total_kwh summary) 25 code = Inr uitems"
    and ub: "\<bar>sum_list (map get_amount uitems)\<bar> \<le> 10 ^ 24" by blast
  from network_item_returns [OF assms(5)]
  obtain network where n: "network_item (s_total_kwh summary) = Inr network"
    and nb: "\<bar>get_amount network\<bar> \<le> 10 ^ 24" by blast
  let ?subtotal = "sum_list (map get_amount (sitems @ uitems @ [network]))"
  from sb ub nb have "\<bar>?subtotal\<bar> \<le> 10 ^ 25" by simp
  then have "\<bar>?subtotal * (10 / 100)\<bar> \<le> 10 ^ 25" by (simp add: abs_mult)
  from quantize_returns [OF this]
  have g: "quantize (?subtotal * (10 / 100)) = Inr (quantize_half_up (?subtotal * (10 / 100)))" .
  show ?thesis
    using g by (simp add: calculate_def assms(1) assms(2) Let_def s u n usage_items_wrapped)
qed

lemma strptime_valid: "strptime sep s = Some dt \<Longrightarrow> valid_date dt"
  by (auto simp: strptime_def split: if_splits option.splits list.splits prod.splits)

text \<open>
  C4, amended. The calculation fails with the error "No consumption data found for file ID"
  exactly when the file yields no consumption summary (an unknown file or a file without a
  listed channel). It never compares the readings with the billing period. For every file
  whose first summary has a consumption of at most \<open>10 ^ 24\<close> kWh in magnitude it returns an
  invoice for every billing period given by two well-formed dates, and without a billing
  period it returns an invoice whenever the first channel has dated readings. (Above
  \<open>10 ^ 26\<close> the rounding of an amount to cents fails.)
\<close>

theorem calculate_failure:
  "(calculate store fid code plan bs be
       = Inl (ValueError ''No consumption data found for file ID'')
      \<longleftrightarrow> get_consumption_summary store fid = [])
   \<and> (\<forall>summary other.
        get_consumption_summary store fid = summary # other
        \<longrightarrow> \<bar>s_total_kwh summary\<bar> \<le> 10 ^ 24
        \<longrightarrow> (strptime ''-'' s \<noteq> None \<longrightarrow> strptime ''-'' e \<noteq> None
              \<longrightarrow> (\<exists>ci. calculate store fid code plan (Some s) (Some e) = Inr ci))
          \<and> (\<forall>ps pe. s_period_start summary = Some ps \<longrightarrow> s_period_end summary = Some pe
                \<longrightarrow> valid_date ps \<longrightarrow> valid_date pe
                \<longrightarrow> (\<exists>ci. calculate store fid code plan None None = Inr ci)))"
proof (cases "get_consumption_summary store fid")
  case Nil
  then show ?thesis by (simp add: calculate_def)
next
  case (Cons summary other)
  have one: "calculate store fid code plan bs be
       \<noteq> Inl (ValueError ''No consumption data found for file ID'')"
  proof
    assume "calculate store fid code plan bs be
       = Inl (ValueError ''No consumption data found for file ID'')"
    from calculate_error [OF Cons this] show False by simp
  qed
  have two: "\<exists>ci. calculate store fid code plan (Some s) (Some e) = Inr ci"
    if b: "\<bar>s_total_kwh summary\<bar> \<le> 10 ^ 24"
      and s: "strptime ''-'' s \<noteq> None" and e: "strptime ''-'' e \<noteq> None"
  proof -
    from s obtain ps where ps: "strptime ''-'' s = Some ps" by blast
    from e obtain pe where pe: "strptime ''-'' e = Some pe" by blast
    from s have s0: "s \<noteq> []" by (auto simp: strptime_def)
    from e have e0: "e \<noteq> []" by (auto simp: strptime_def)
    from ps pe s0 e0 have "billing_period (Some s) (Some e) summary = Inr (ps, pe)"
      by (simp add: billing_period_def)
    from calculate_returns [OF Cons this strptime_valid [OF ps] strptime_valid [OF pe] b]
    show ?thesis .
  qed
  have three: "\<exists>ci. calculate store fid code plan None None = Inr ci"
    if b: "\<bar>s_total_kwh summary\<bar> \<le> 10 ^ 24"
      and "s_period_start summary = Some ps" and "s_period_end summary = Some pe"
      and v: "valid_date ps" "valid_date pe" for ps pe
  proof -
    from that have "billing_period None None summary = Inr (ps, pe)"
      by (simp add: billing_period_def)
    from calculate_returns [OF Cons this v b] show ?thesis .
  qed
  from one two three Cons show ?thesis by simp
qed

text \<open>
  C4, as worded, expects a failure when no reading lies in the billing period. The file
  with one reading on 1 January 2024 is billed for June 2025 without an error.
\<close>

theorem no_readings_in_period_counterexample:
  "(case process_nem12 float_of_decimal Map.empty ''upload'' one_reading_file of
      Inl e \<Rightarrow> None
    | Inr (meters, store) \<Rightarrow>
        Some (readings_in_period store ''upload'' (2025, 6, 1) (2025, 6, 30),
              case calculate store ''upload'' ''EA025'' None (Some ''2025-06-01'')
                     (Some ''2025-06-30'') of
                Inl e \<Rightarrow> None
              | Inr ci \<Rightarrow> Some (ci_total ci)))
   = Some ([], Some (834 / 25))"
  by code_simp

theorem calculate_failure_witness:
  "get_consumption_summary (e_file_data sample_engine) ''upload''
     = [\<lparr> s_nmi = ''6001000001'', s_period_start = Some (2024, 1, 1),
          s_period_end = Some (2024, 1, 1), s_total_kwh = 1, s_peak_kwh = 0,
          s_off_peak_kwh = 1 \<rparr>]
   \<and> \<bar>1 :: rat\<bar> \<le> 10 ^ 24 \<and> valid_date (2024, 1, 1)
   \<and> strptime ''-'' ''2025-06-01'' \<noteq> None \<and> strptime ''-'' ''2025-06-30'' \<noteq> None
   \<and> (\<exists>ci. calculate (e_file_data sample_engine) ''upload'' ''EA025'' None
                (Some ''2025-06-01'') (Some ''2025-06-30'') = Inr ci)
   \<and> (\<exists>ci. calculate (e_file_data sample_engine) ''upload'' ''EA025'' None None None = Inr ci)
   \<and> calculate (e_file_data sample_engine) ''unknown'' ''EA025'' None None None
        = Inl (ValueError ''No consumption data found for file ID'')"
proof -
  have g: "get_consumption_summary (e_file_data sample_engine) ''upload''
      = [\<lparr> s_nmi = ''6001000001'', s_period_start = Some (2024, 1, 1),
           s_period_end = Some (2024, 1, 1), s_total_kwh = 1, s_peak_kwh = 0,
           s_off_peak_kwh = 1 \<rparr>]"
    by code_simp
  have v: "valid_date (2024, 1, 1)" by code_simp
  have b: "strptime ''-'' ''2025-06-01'' \<noteq> None" by code_simp
  have c: "strptime ''-'' ''2025-06-30'' \<noteq> None" by code_simp
  have d: "get_consumption_summary (e_file_data sample_engine) ''unknown'' = []"
    by code_simp
  note th = calculate_failure [of "e_file_data sample_engine" "''upload''" "''EA025''" None
      None None "''2025-06-01''" "''2025-06-30''"]
  from th g b c
  have e: "\<exists>ci. calculate (e_file_data sample_engine) ''upload'' ''EA025'' None
                (Some ''2025-06-01'') (Some ''2025-06-30'') = Inr ci"
    by simp
  from th g v
  have h: "\<exists>ci. calculate (e_file_data sample_engine) ''upload'' ''EA025'' None None None
             = Inr ci"
    by simp
  from calculate_failure [of "e_file_data sample_engine" "''unknown''" "''EA025''" None None None
      "''2025-06-01''" "''2025-06-30''"] d
  have f: "calculate (e_file_data sample_engine) ''unknown'' ''EA025'' None None None
        = Inl (ValueError ''No consumption data found for file ID'')"
    by simp
  from g v b c e h f show ?thesis by simp
qed

text \<open>
  The limit is real: with a consumption of \<open>10 ^ 27\<close> kWh or more the rounding of the usage
  amount fails, and with it the calculation.
\<close>

lemma quantize_half_up_lower:
  assumes "0 \<le> x"
  shows "x - 1 / 200 \<le> quantize_half_up x"
proof -
  have "x * 100 + 1 / 2 < of_int (\<lfloor>x * 100 + 1 / 2\<rfloor> + 1)"
    using floor_correct [of "x * 100 + 1 / 2"] by simp
  then have "x * 100 - 1 / 2 \<le> of_int \<lfloor>x * 100 + 1 / 2\<rfloor>" by simp
  with assms show ?thesis by (simp add: quantize_half_up_def)
qed

lemma huge_consumption_raises:
  assumes "get_consumption_summary store fid = summary # other"
    and "billing_period bs be summary = Inr (ps, pe)"
    and "valid_date ps" and "valid_date pe"
    and "10 ^ 27 \<le> s_total_kwh summary"
  shows "calculate store fid code plan bs be = Inl InvalidOperation"
proof -
  let ?days = "toordinal pe - toordinal ps + 1"
  from toordinal_bounds [OF assms(3)] toordinal_bounds [OF assms(4)]
  have "\<bar>?days\<bar> \<le> 10000000" by linarith
  then have "\<bar>of_int ?days :: rat\<bar> \<le> of_int 10000000"
    by (simp only: of_int_abs [symmetric] of_int_le_iff)
  then have "\<bar>of_int ?days :: rat\<bar> \<le> 10 ^ 7" by simp
  from supply_items_returns [OF this, of code ps pe]
  obtain sitems where s: "supply_items (get_tariff_by_code None code) code ps pe ?days = Inr sitems"
    by blast
  let ?x = "s_total_kwh summary * 25 / 100"
  from assms(5) have x: "0 \<le> ?x" "10 ^ 27 / 4 \<le> ?x" by simp_all
  from quantize_half_up_lower [OF x(1)] x(2)
  have "10 ^ 26 \<le> quantize_half_up ?x" by simp
  then have "quantize ?x = Inl InvalidOperation" by (simp add: quantize_def)
  then have u: "usage_line True ''Energy Usage'' (s_total_kwh summary) 25 code
                  = Inl InvalidOperation"
    by (simp add: usage_line_def usage_item_def)
  show ?thesis
    by (simp add: calculate_def assms(1) assms(2) Let_def s u usage_items_wrapped)
qed

lemma supply_items_amount:
  assumes "supply_items network_tariff code ps pe days = Inr items" and "i \<in> set items"
  shows "li_amount i = Some (quantize_half_up (the (li_rate i) * of_int days))"
  using assms
  by (auto simp: supply_items_def quantize_def Let_def
      split: option.splits pyval.splits sum.splits if_splits)

lemma calculate_totals:
  assumes "calculate store fid code plan bs be = Inr ci"
  shows "ci_subtotal ci = sum_list (map get_amount (ci_line_items ci))
       \<and> ci_gst ci = quantize_half_up (ci_subtotal ci * (10 / 100))
       \<and> ci_total ci = ci_subtotal ci + ci_gst ci"
  using assms
  by (auto simp: calculate_def quantize_def Let_def
      split: list.splits sum.splits prod.splits if_splits)

text \<open>
  The branches of the calculator on a tariff dictionary that is not wrapped: the rate of a
  bucket is that of the first period whose name matches without regard to case, with the
  defaults 35, 18 and 25 cents; a time-of-use tariff gives one line per positive bucket;
  the supply line uses the daily charge of the tariff.
\<close>

lemma default_period_rates:
  "get_period_rate [] ''peak'' = Inr 35 \<and> get_period_rate [] ''off_peak'' = Inr 18
   \<and> get_period_rate [] ''shoulder'' = Inr 25 \<and> get_period_rate [] ''night'' = Inr 25"
  by code_simp

lemma period_name_ignores_case:
  "get_period_rate [(''time_periods'',
       PList [PDict [(''name'', PStr ''Peak''), (''rate_cents_per_kwh'', PNum 30)]])] ''peak''
     = Inr 30"
  by code_simp

lemma unwrapped_tariff_is_billed_by_bucket:
  "(case usage_items (Some (PDict (sample_tariffs AUSGRID ! 0))) ''EA010''
           \<lparr> s_nmi = ''6001000001'', s_period_start = Some (2024, 1, 1),
             s_period_end = Some (2024, 1, 1), s_total_kwh = 15, s_peak_kwh = 1,
             s_off_peak_kwh = 14 \<rparr> of
      Inl e \<Rightarrow> None
    | Inr items \<Rightarrow>
        Some (map (\<lambda>i. (get_description i, li_quantity i, li_rate i, get_amount i)) items))
   = Some [(''Peak Energy Usage'', Some 1, Some (891 / 2500), 9 / 25),
           (''Off-Peak Energy Usage'', Some 14, Some (407 / 5000), 57 / 50)]"
  by code_simp

lemma unwrapped_tariff_supply_charge:
  "(case supply_items (Some (PDict (sample_tariffs AUSGRID ! 1))) ''EA025'' (2024, 1, 1)
           (2024, 1, 30) 30 of
      Inl e \<Rightarrow> None
    | Inr items \<Rightarrow> Some (map (\<lambda>i. (li_rate i, get_amount i)) items))
   = Some [(Some (9837 / 10000), 2951 / 100)]"
  by code_simp

text \<open>
  C3. The calculator reads the daily supply charge from the answer of the catalogue, but
  the catalogue wraps the tariff under the key \<open>network_tariff\<close>, so the lookup always falls
  back to its default of 100 cents. For the flat tariff EA025 (98.37 cents a day) and the
  thirty days from 1 to 30 January 2024 the supply line is 30.00 at a rate of 1.00 a day;
  the tariff's own charge gives 29.51.
\<close>

theorem supply_charge_ignores_tariff:
  "(case process_nem12 float_of_decimal Map.empty ''upload'' one_reading_file of
      Inl e \<Rightarrow> None
    | Inr (meters, store) \<Rightarrow>
        (case calculate store ''upload'' ''EA025'' None (Some ''2024-01-01'')
                (Some ''2024-01-30'') of
           Inl e \<Rightarrow> None
         | Inr ci \<Rightarrow>
             Some (map (\<lambda>i. (get_description i, li_quantity i, li_rate i, get_amount i))
                     (filter (\<lambda>i. get_charge_type i = ''supply'') (ci_line_items ci)))))
   = Some [(''Daily Supply Charge'', Some 30, Some 1, 30)]
   \<and> map (\<lambda>t. dict_get t ''daily_supply_charge_cents'' PNone)
        (filter (\<lambda>t. dict_get t ''tariff_code'' PNone = PStr ''EA025'') (sample_tariffs AUSGRID))
     = [PNum (9837 / 100)]
   \<and> quantize_half_up (9837 / 100 / 100 * 30) = 2951 / 100"
  by code_simp

text \<open>
  C5. For the same reason the list of time periods of a tariff is never found, and a
  time-of-use tariff is billed on the flat branch at the default of 25 cents. For the
  time-of-use tariff EA010 and a day with 1 kWh at peak and 14 kWh off peak the invoice has
  the single usage line "Energy Usage" for 15 kWh at 0.25, not one line per bucket at the
  rates of the periods (35.64 and 8.14 cents).
\<close>

theorem time_of_use_tariff_billed_flat:
  "(case process_nem12 float_of_decimal Map.empty ''upload'' peak_file of
      Inl e \<Rightarrow> None
    | Inr (meters, store) \<Rightarrow>
        (case calculate store ''upload'' ''EA010'' None (Some ''2024-01-01'')
                (Some ''2024-01-01'') of
           Inl e \<Rightarrow> None
         | Inr ci \<Rightarrow>
             Some (map (\<lambda>s. (s_peak_kwh s, s_off_peak_kwh s))
                     (get_consumption_summary store ''upload''),
                   map (\<lambda>i. (get_description i, li_quantity i, li_rate i, get_amount i))
                     (filter (\<lambda>i. get_charge_type i = ''usage'') (ci_line_items ci)))))
   = Some ([(1, 14)], [(''Energy Usage'', Some 15, Some (1 / 4), 15 / 4)])
   \<and> map (\<lambda>t. truthy (dict_get t ''time_periods'' PNone))
        (filter (\<lambda>t. dict_get t ''tariff_code'' PNone = PStr ''EA010'') (sample_tariffs AUSGRID))
     = [True]"
  by code_simp

section \<open>Properties of the reconciliation run\<close>






text \<open>
  The run of the sample engine in full: one record is a MATCH, two are missing, the totals
  differ by far more than 5 percent and the overall status is SIGNIFICANT.
\<close>

lemma sample_run_rollup:
  "(case reconcile exact_pct exact_div py_round2 sample_engine ''run-1'' ''invoice'' ''upload''
          None None 1 of
      Inl e \<Rightarrow> None
    | Inr (res, eng) \<Rightarrow>
        Some (map r_status (rs_line_items res), rs_invoiced_total res,
              rs_calculated_total res, rs_overall_status res))
     = Some ([MATCH, MISSING_CALCULATED, MISSING_CALCULATED], 289 / 50, 73 / 50, SIGNIFICANT)"
  by code_simp

end
